theory Spec2Isabelle
  imports Complex_Main "HOL-Library.AList"
begin

section \<open>Numbers\<close>

text \<open>
  A JavaScript \<open>number\<close> that the code computes with is modelled as a \<open>real\<close>: finite,
  with exact arithmetic (rounding is not modelled). Where the code itself uses or tests
  the non-finite values (the \<open>Infinity\<close> sentinels of \<open>calculateShapeBounds\<close>,
  \<open>Number.isFinite\<close> in the importer, a square root of a negative number, a division
  that can be by zero in the generator), the value is a \<open>jsnum\<close>. Signed zeros are not
  distinguished.
\<close>

datatype jsnum = Num real | PosInf | NegInf | NaN

fun js_lt :: "jsnum \<Rightarrow> jsnum \<Rightarrow> bool" where
  "js_lt NaN _ = False"
| "js_lt _ NaN = False"
| "js_lt (Num a) (Num b) = (a < b)"
| "js_lt _ NegInf = False"
| "js_lt PosInf _ = False"
| "js_lt NegInf _ = True"
| "js_lt _ PosInf = True"

fun js_le :: "jsnum \<Rightarrow> jsnum \<Rightarrow> bool" where
  "js_le NaN _ = False"
| "js_le _ NaN = False"
| "js_le (Num a) (Num b) = (a \<le> b)"
| "js_le NegInf _ = True"
| "js_le _ PosInf = True"
| "js_le _ NegInf = False"
| "js_le PosInf _ = False"

text \<open>Arithmetic that can leave the finite numbers.\<close>

fun js_div :: "jsnum \<Rightarrow> jsnum \<Rightarrow> jsnum" where
  "js_div NaN _ = NaN"
| "js_div _ NaN = NaN"
| "js_div (Num a) (Num b) =
     (if b \<noteq> 0 then Num (a / b) else if a > 0 then PosInf else if a < 0 then NegInf else NaN)"
| "js_div (Num a) _ = Num 0"
| "js_div PosInf (Num b) = (if b \<ge> 0 then PosInf else NegInf)"
| "js_div NegInf (Num b) = (if b \<ge> 0 then NegInf else PosInf)"
| "js_div _ _ = NaN"

fun js_mul :: "jsnum \<Rightarrow> jsnum \<Rightarrow> jsnum" where
  "js_mul NaN _ = NaN"
| "js_mul _ NaN = NaN"
| "js_mul (Num a) (Num b) = Num (a * b)"
| "js_mul (Num a) PosInf = (if a > 0 then PosInf else if a < 0 then NegInf else NaN)"
| "js_mul (Num a) NegInf = (if a > 0 then NegInf else if a < 0 then PosInf else NaN)"
| "js_mul PosInf (Num b) = (if b > 0 then PosInf else if b < 0 then NegInf else NaN)"
| "js_mul NegInf (Num b) = (if b > 0 then NegInf else if b < 0 then PosInf else NaN)"
| "js_mul PosInf PosInf = PosInf"
| "js_mul NegInf NegInf = PosInf"
| "js_mul _ _ = NegInf"

fun js_sqrt :: "jsnum \<Rightarrow> jsnum" where
  "js_sqrt (Num a) = (if a \<ge> 0 then Num (sqrt a) else NaN)"
| "js_sqrt PosInf = PosInf"
| "js_sqrt _ = NaN"

fun js_floor :: "jsnum \<Rightarrow> jsnum" where
  "js_floor (Num a) = Num (of_int \<lfloor>a\<rfloor>)"
| "js_floor v = v"

fun js_ceil :: "jsnum \<Rightarrow> jsnum" where
  "js_ceil (Num a) = Num (of_int \<lceil>a\<rceil>)"
| "js_ceil v = v"

definition js_max :: "jsnum \<Rightarrow> jsnum \<Rightarrow> jsnum" where
  "js_max a b = (if a = NaN \<or> b = NaN then NaN else if js_lt a b then b else a)"

section \<open>Shapes (types/shapes.ts)\<close>

type_synonym Coordinate = "real \<times> real"

record ShapeStyle =
  fillColor :: "string option"
  borderColor :: "string option"
  borderWidth :: "jsnum option"
  opacity :: "jsnum option"

text \<open>
  The union \<open>PolygonShape | LineShape | PointShape\<close>: the \<open>type\<close> tag with the fields
  that belong to it is a constructor of \<open>Geometry\<close>; \<open>id\<close>, \<open>style\<close> and \<open>label\<close> are
  common. The number type of the coordinates and the style type are parameters, so that
  the output of the importer without guards, whose coordinates can be \<open>undefined\<close>, has
  a type too.
\<close>

datatype 'n Geometry =
    Polygon "('n \<times> 'n) list"
  | Line "('n \<times> 'n) list"
  | Point "'n \<times> 'n" "'n option"

record ('n, 's) Shape =
  shape_id :: string
  geometry :: "'n Geometry"
  style :: 's
  label :: "string option"

type_synonym CShape = "(real, ShapeStyle) Shape"

fun is_line :: "'n Geometry \<Rightarrow> bool" where
  "is_line (Line _) = True"
| "is_line _ = False"

section \<open>The shape manager (pixi/ShapeManager.ts)\<close>

subsection \<open>State\<close>

record BBox =
  minX :: jsnum
  minY :: jsnum
  maxX :: jsnum
  maxY :: jsnum

record RBushItem = BBox +
  item_id :: string

text \<open>
  What a \<open>Graphics\<close> object shows is kept as \<open>visual\<close>: \<open>Blank\<close> after \<open>clear()\<close> with
  nothing drawn, \<open>Drawn sel\<close> when the shape was drawn, with the selection treatment
  (stroke colour \<open>0x0066ff\<close>) iff \<open>sel\<close>. \<open>gid\<close> is the identity of the object:
  \<open>new Graphics()\<close> takes the next unused one.
\<close>

datatype visual = Blank | Drawn bool

record Graphics =
  gid :: nat
  visual :: visual

record ShapeData =
  graphics :: Graphics
  shape :: CShape
  inScene :: bool

record ResizeHandleGraphics =
  handleIndex :: "int option"
  shapeId :: "string option"
  position :: Coordinate
  handle_visible :: bool
  resize_enabled :: bool

record ViewportBounds =
  vp_x :: real
  vp_y :: real
  vp_width :: real
  vp_height :: real

text \<open>The \<open>detail\<close> of the \<open>visibleShapesUpdate\<close> event, without the elapsed time.\<close>

record CullDetail =
  detail_count :: nat
  detail_total :: nat
  detail_checked :: nat
  detail_added :: nat
  detail_removed :: nat
  detail_inScene :: nat
  detail_skippedByLOD :: nat
  detail_lodLevel :: nat

text \<open>
  The fields of the class. A \<open>Map\<close> is an association list in insertion order, a \<open>Set\<close>
  a list without repetition in insertion order. \<open>shapesContainer\<close> is the list of the
  children of that container (the \<open>gid\<close>s); the children of \<open>resizeHandlesContainer\<close>
  are at every moment the elements of \<open>resizeHandles\<close>, so the list stands for both.
  \<open>toLocal\<close> is the container's transform of a global position, \<open>windowDefined\<close> is
  \<open>typeof window !== 'undefined'\<close>, \<open>dispatched\<close> collects the events given to
  \<open>window.dispatchEvent\<close>, \<open>selectionChangedCallback\<close> says whether a callback is
  registered and \<open>selectionNotified\<close> collects its calls.
\<close>

record ShapeManager =
  shapesContainer :: "nat list"
  shapes :: "(string \<times> ShapeData) list"
  labels :: "(string \<times> bool) list"
  selectedShapes :: "string list"
  shapesInScene :: "string list"
  selectionChangedCallback :: bool
  selectionNotified :: "string list list"
  resizeHandles :: "ResizeHandleGraphics list"
  isDragging :: bool
  dragOffset :: Coordinate
  isResizing :: bool
  resizeHandleIndex :: int
  activeShapeId :: "string option"
  spatialIndex :: "RBushItem list option"
  nextGid :: nat
  toLocal :: "Coordinate \<Rightarrow> Coordinate"
  windowDefined :: bool
  dispatched :: "CullDetail list"

subsection \<open>Constants\<close>

definition LOD_MEDIUM_THRESHOLD :: real where
  "LOD_MEDIUM_THRESHOLD = 3"

definition LOD_LOW_THRESHOLD :: real where
  "LOD_LOW_THRESHOLD = 8"

definition BUFFER_PERCENT :: real where
  "BUFFER_PERCENT = 0.4"

definition BASE_AREA :: real where
  "BASE_AREA = 2000 * 2000"

subsection \<open>Containers, sets and maps of the runtime\<close>

text \<open>
  \<open>Container.removeChild\<close> takes the child out if it is there; \<open>addChild\<close> takes the
  child out of its parent first (here always this container) and appends it.
\<close>

definition removeChild :: "nat \<Rightarrow> nat list \<Rightarrow> nat list" where
  "removeChild g cs = remove1 g cs"

definition addChild :: "nat \<Rightarrow> nat list \<Rightarrow> nat list" where
  "addChild g cs = remove1 g cs @ [g]"

definition set_add :: "'a \<Rightarrow> 'a list \<Rightarrow> 'a list" where
  "set_add a xs = (if a \<in> set xs then xs else xs @ [a])"

definition set_delete :: "'a \<Rightarrow> 'a list \<Rightarrow> 'a list" where
  "set_delete a xs = removeAll a xs"

definition map_get :: "('k \<times> 'v) list \<Rightarrow> 'k \<Rightarrow> 'v option" where
  "map_get m k = map_of m k"

definition map_set :: "'k \<Rightarrow> 'v \<Rightarrow> ('k \<times> 'v) list \<Rightarrow> ('k \<times> 'v) list" where
  "map_set k v m = AList.update k v m"

definition map_delete :: "'k \<Rightarrow> ('k \<times> 'v) list \<Rightarrow> ('k \<times> 'v) list" where
  "map_delete k m = AList.delete k m"

text \<open>A string is truthy iff it is not empty; \<open>null\<close> is falsy.\<close>

fun truthy_id :: "string option \<Rightarrow> bool" where
  "truthy_id None = False"
| "truthy_id (Some s) = (s \<noteq> [])"

text \<open>\<open>shape.radius || 5\<close>: an absent radius and the radius 0 give 5.\<close>

fun radius_or_5 :: "real option \<Rightarrow> real" where
  "radius_or_5 None = 5"
| "radius_or_5 (Some r) = (if r = 0 then 5 else r)"

subsection \<open>Bounding boxes and the spatial index\<close>

text \<open>One step of the \<open>forEach\<close> of \<open>calculateShapeBounds\<close>, and the loop.\<close>

definition extendBounds :: "BBox \<Rightarrow> Coordinate \<Rightarrow> BBox" where
  "extendBounds b c =
     (let b1 = (if js_lt (Num (fst c)) (minX b) then b\<lparr>minX := Num (fst c)\<rparr> else b);
          b2 = (if js_lt (maxX b1) (Num (fst c)) then b1\<lparr>maxX := Num (fst c)\<rparr> else b1);
          b3 = (if js_lt (Num (snd c)) (minY b2) then b2\<lparr>minY := Num (snd c)\<rparr> else b2)
      in (if js_lt (maxY b3) (Num (snd c)) then b3\<lparr>maxY := Num (snd c)\<rparr> else b3))"

definition emptyBounds :: BBox where
  "emptyBounds = \<lparr>minX = PosInf, minY = PosInf, maxX = NegInf, maxY = NegInf\<rparr>"

fun calculateShapeBounds :: "CShape \<Rightarrow> BBox" where
  "calculateShapeBounds s =
     (case geometry s of
        Polygon cs \<Rightarrow> foldl extendBounds emptyBounds cs
      | Line ps \<Rightarrow> foldl extendBounds emptyBounds ps
      | Point c rad \<Rightarrow>
          (let r = radius_or_5 rad
           in \<lparr>minX = Num (fst c - r), minY = Num (snd c - r),
               maxX = Num (fst c + r), maxY = Num (snd c + r)\<rparr>))"

text \<open>
  The library \<open>rbush\<close> is not part of the repository. \<open>load\<close> keeps the items, and
  \<open>search q\<close> returns the loaded items whose box meets \<open>q\<close>, borders included; the test
  is the library's \<open>intersects\<close>.
\<close>

definition intersects :: "BBox \<Rightarrow> 'a RBushItem_scheme \<Rightarrow> bool" where
  "intersects a b \<longleftrightarrow>
     js_le (minX b) (maxX a) \<and> js_le (minY b) (maxY a) \<and>
     js_le (minX a) (maxX b) \<and> js_le (minY a) (maxY b)"

definition rbush_search :: "BBox \<Rightarrow> RBushItem list \<Rightarrow> RBushItem list" where
  "rbush_search q items = filter (intersects q) items"

definition indexItem :: "ShapeData \<Rightarrow> RBushItem" where
  "indexItem sd = BBox.extend (calculateShapeBounds (shape sd)) \<lparr>item_id = shape_id (shape sd)\<rparr>"

definition buildSpatialIndex :: "ShapeManager \<Rightarrow> ShapeManager" where
  "buildSpatialIndex m = m\<lparr>spatialIndex := Some (map (\<lambda>(k, sd). indexItem sd) (shapes m))\<rparr>"

subsection \<open>Culling\<close>

text \<open>\<open>Math.sqrt\<close> of a negative area is \<open>NaN\<close>, which is above no threshold.\<close>

definition zoomOutFactor :: "ViewportBounds \<Rightarrow> jsnum" where
  "zoomOutFactor v = js_sqrt (Num (vp_width v * vp_height v / BASE_AREA))"

definition lodLevel :: "ViewportBounds \<Rightarrow> nat" where
  "lodLevel v =
     (if js_lt (Num LOD_LOW_THRESHOLD) (zoomOutFactor v) then 2
      else if js_lt (Num LOD_MEDIUM_THRESHOLD) (zoomOutFactor v) then 1
      else 0)"

definition bufferedBounds :: "ViewportBounds \<Rightarrow> BBox" where
  "bufferedBounds v =
     (let bufferX = vp_width v * BUFFER_PERCENT;
          bufferY = vp_height v * BUFFER_PERCENT
      in \<lparr>minX = Num (vp_x v - bufferX),
          minY = Num (vp_y v - bufferY),
          maxX = Num (vp_x v + vp_width v + bufferX),
          maxY = Num (vp_y v + vp_height v + bufferY)\<rparr>)"

text \<open>
  The counters and the two collections that the \<open>forEach\<close> over \<open>this.shapes\<close> updates.
\<close>

record CullAcc =
  visibleCount :: nat
  addedCount :: nat
  removedCount :: nat
  skippedByLOD :: nat
  acc_children :: "nat list"
  acc_inScene :: "string list"

text \<open>The body of the \<open>forEach\<close> for the entry \<open>(k, sd)\<close>.\<close>

definition cullStep ::
  "string list \<Rightarrow> nat \<Rightarrow> string \<Rightarrow> ShapeData \<Rightarrow> CullAcc \<Rightarrow> ShapeData \<times> CullAcc" where
  "cullStep potentiallyVisibleIds lod k sd acc =
     (if k \<in> set potentiallyVisibleIds then
        (let acc1 = acc\<lparr>visibleCount := visibleCount acc + 1\<rparr>
         in if lod \<ge> 1 \<and> is_line (geometry (shape sd)) then
              (if inScene sd then
                 (sd\<lparr>inScene := False\<rparr>,
                  acc1\<lparr>acc_children := removeChild (gid (graphics sd)) (acc_children acc1),
                       removedCount := removedCount acc1 + 1,
                       skippedByLOD := skippedByLOD acc1 + 1\<rparr>)
               else (sd, acc1\<lparr>skippedByLOD := skippedByLOD acc1 + 1\<rparr>))
            else if \<not> inScene sd then
              (sd\<lparr>inScene := True\<rparr>,
               acc1\<lparr>acc_children := addChild (gid (graphics sd)) (acc_children acc1),
                    acc_inScene := set_add k (acc_inScene acc1),
                    addedCount := addedCount acc1 + 1\<rparr>)
            else (sd, acc1))
      else if inScene sd then
        (sd\<lparr>inScene := False\<rparr>,
         acc\<lparr>acc_children := removeChild (gid (graphics sd)) (acc_children acc),
             acc_inScene := set_delete k (acc_inScene acc),
             removedCount := removedCount acc + 1\<rparr>)
      else (sd, acc))"

fun cullLoop ::
  "string list \<Rightarrow> nat \<Rightarrow> (string \<times> ShapeData) list \<Rightarrow> CullAcc
     \<Rightarrow> (string \<times> ShapeData) list \<times> CullAcc" where
  "cullLoop ids lod [] acc = ([], acc)"
| "cullLoop ids lod ((k, sd) # rest) acc =
     (case cullStep ids lod k sd acc of
        (sd', acc') \<Rightarrow>
          (case cullLoop ids lod rest acc' of
             (rest', acc'') \<Rightarrow> ((k, sd') # rest', acc'')))"

text \<open>\<open>label.visible = shapeData.inScene\<close> for every label whose shape is in the store.\<close>

definition cullLabels :: "(string \<times> ShapeData) list \<Rightarrow> (string \<times> bool) list \<Rightarrow> (string \<times> bool) list" where
  "cullLabels ss ls =
     map (\<lambda>(k, vis). case map_get ss k of Some sd \<Rightarrow> (k, inScene sd) | None \<Rightarrow> (k, vis)) ls"

text \<open>The handles follow the active shape, or else the single selected one.\<close>

definition cullHandles :: "ShapeManager \<Rightarrow> ResizeHandleGraphics list" where
  "cullHandles m =
     (if truthy_id (activeShapeId m) then
        (case map_get (shapes m) (the (activeShapeId m)) of
           Some sd \<Rightarrow> map (\<lambda>h. h\<lparr>handle_visible := inScene sd\<rparr>) (resizeHandles m)
         | None \<Rightarrow> resizeHandles m)
      else if length (selectedShapes m) = 1 then
        (case map_get (shapes m) (hd (selectedShapes m)) of
           Some sd \<Rightarrow> map (\<lambda>h. h\<lparr>handle_visible := inScene sd\<rparr>) (resizeHandles m)
         | None \<Rightarrow> resizeHandles m)
      else resizeHandles m)"

text \<open>
  \<open>cullShapes\<close> returns the manager after the pass and the counters of the pass; the
  event is dispatched when there is a \<open>window\<close>. \<open>ensureIndex\<close> is its first statement,
  which builds the index when there is none; \<open>cullPass\<close> is the rest.
\<close>

definition ensureIndex :: "ShapeManager \<Rightarrow> ShapeManager" where
  "ensureIndex m = (if spatialIndex m = None then buildSpatialIndex m else m)"

definition potentiallyVisibleIds :: "ViewportBounds \<Rightarrow> ShapeManager \<Rightarrow> string list" where
  "potentiallyVisibleIds viewportBounds m =
     map item_id (rbush_search (bufferedBounds viewportBounds) (the (spatialIndex m)))"

definition cullPass :: "ViewportBounds \<Rightarrow> ShapeManager \<Rightarrow> ShapeManager \<times> CullDetail" where
  "cullPass viewportBounds m =
     (let ids = potentiallyVisibleIds viewportBounds m;
          checkedCount = card (set ids);
          lod = lodLevel viewportBounds;
          acc0 = \<lparr>visibleCount = 0, addedCount = 0, removedCount = 0, skippedByLOD = 0,
                  acc_children = shapesContainer m, acc_inScene = shapesInScene m\<rparr>
      in case cullLoop ids lod (shapes m) acc0 of
           (shapes', acc) \<Rightarrow>
             (let m1 = m\<lparr>shapes := shapes',
                         shapesContainer := acc_children acc,
                         shapesInScene := acc_inScene acc\<rparr>;
                  m2 = m1\<lparr>labels := cullLabels (shapes m1) (labels m1)\<rparr>;
                  m3 = m2\<lparr>resizeHandles := cullHandles m2\<rparr>;
                  detail = \<lparr>detail_count = visibleCount acc,
                            detail_total = length (shapes m3),
                            detail_checked = checkedCount,
                            detail_added = addedCount acc,
                            detail_removed = removedCount acc,
                            detail_inScene = length (shapesContainer m3),
                            detail_skippedByLOD = skippedByLOD acc,
                            detail_lodLevel = lod\<rparr>
              in (if windowDefined m3 then m3\<lparr>dispatched := dispatched m3 @ [detail]\<rparr> else m3,
                  detail)))"

definition cullShapes :: "ViewportBounds \<Rightarrow> ShapeManager \<Rightarrow> ShapeManager \<times> CullDetail" where
  "cullShapes viewportBounds m = cullPass viewportBounds (ensureIndex m)"

text \<open>The manager that the constructor makes, for a container with the transform \<open>tr\<close>.\<close>

definition newShapeManager :: "(Coordinate \<Rightarrow> Coordinate) \<Rightarrow> bool \<Rightarrow> ShapeManager" where
  "newShapeManager tr w =
     \<lparr>shapesContainer = [], shapes = [], labels = [], selectedShapes = [], shapesInScene = [],
      selectionChangedCallback = False, selectionNotified = [], resizeHandles = [],
      isDragging = False, dragOffset = (0, 0), isResizing = False, resizeHandleIndex = -1,
      activeShapeId = None, spatialIndex = None, nextGid = 0, toLocal = tr,
      windowDefined = w, dispatched = []\<rparr>"

subsection \<open>Adding and removing shapes\<close>

datatype error = TypeError

text \<open>
  \<open>createPolygon\<close>, \<open>createLine\<close> and \<open>createPoint\<close> draw the shape without the
  selection treatment; a polygon without vertices and a line with fewer than two points
  draw nothing.
\<close>

definition createPolygon :: "Coordinate list \<Rightarrow> visual" where
  "createPolygon coords = (if length coords > 0 then Drawn False else Blank)"

definition createLine :: "Coordinate list \<Rightarrow> visual" where
  "createLine points = (if length points \<ge> 2 then Drawn False else Blank)"

definition createPoint :: visual where
  "createPoint = Drawn False"

definition addShape :: "CShape \<Rightarrow> ShapeManager \<Rightarrow> ShapeManager \<times> Graphics" where
  "addShape sh m =
     (let g = \<lparr>gid = nextGid m,
               visual = (case geometry sh of
                           Polygon cs \<Rightarrow> createPolygon cs
                         | Line ps \<Rightarrow> createLine ps
                         | Point c r \<Rightarrow> createPoint)\<rparr>
      in (m\<lparr>shapes := map_set (shape_id sh) \<lparr>graphics = g, shape = sh, inScene = False\<rparr> (shapes m),
            nextGid := Suc (nextGid m)\<rparr>, g))"

text \<open>
  \<open>graphics.destroy()\<close> takes the object out of its parent, so after \<open>removeChild\<close>
  it changes nothing more here. No label is ever created (that code is commented out),
  so a label has no object in a container.
\<close>

definition removeShape :: "string \<Rightarrow> ShapeManager \<Rightarrow> ShapeManager" where
  "removeShape k m =
     (let m1 = (case map_get (shapes m) k of
                  Some shapeData \<Rightarrow>
                    m\<lparr>shapesContainer := removeChild (gid (graphics shapeData)) (shapesContainer m),
                      shapes := map_delete k (shapes m)\<rparr>
                | None \<Rightarrow> m)
      in (case map_get (labels m1) k of
            Some l \<Rightarrow> m1\<lparr>labels := map_delete k (labels m1)\<rparr>
          | None \<Rightarrow> m1))"

definition clear :: "ShapeManager \<Rightarrow> ShapeManager" where
  "clear m = m\<lparr>shapes := [], labels := [], shapesInScene := [], shapesContainer := []\<rparr>"

definition getShapeById :: "string \<Rightarrow> ShapeManager \<Rightarrow> CShape option" where
  "getShapeById k m = map_option shape (map_get (shapes m) k)"

definition getShapeCount :: "ShapeManager \<Rightarrow> nat" where
  "getShapeCount m = length (shapes m)"

subsection \<open>Selection and resize handles\<close>

definition redraw :: "CShape \<Rightarrow> bool \<Rightarrow> visual" where
  "redraw sh selected =
     (case geometry sh of
        Polygon coords \<Rightarrow> (if length coords > 0 then Drawn selected else Blank)
      | Line points \<Rightarrow> (if length points \<ge> 2 then Drawn selected else Blank)
      | Point c r \<Rightarrow> Drawn selected)"

definition updateShapeVisuals :: "string \<Rightarrow> bool \<Rightarrow> ShapeManager \<Rightarrow> ShapeManager" where
  "updateShapeVisuals k selected m =
     (case map_get (shapes m) k of
        None \<Rightarrow> m
      | Some shapeData \<Rightarrow>
          m\<lparr>shapes := map_set k
               (shapeData\<lparr>graphics := (graphics shapeData)\<lparr>visual := redraw (shape shapeData) selected\<rparr>\<rparr>)
               (shapes m)\<rparr>)"

definition clearResizeHandles :: "ShapeManager \<Rightarrow> ShapeManager" where
  "clearResizeHandles m = m\<lparr>resizeHandles := []\<rparr>"

definition directions :: "Coordinate list" where
  "directions = [(-1, -1), (1, -1), (1, 1), (-1, 1)]"

text \<open>A new handle is visible; \<open>resize_enabled\<close> of a handle says that \<open>enableResize\<close> gave it its listener.\<close>

definition newHandle :: "string \<Rightarrow> nat \<Rightarrow> Coordinate \<Rightarrow> ResizeHandleGraphics" where
  "newHandle k i pos =
     \<lparr>handleIndex = Some (int i), shapeId = Some k, position = pos,
      handle_visible = True, resize_enabled = False\<rparr>"

definition createResizeHandles :: "string \<Rightarrow> ShapeManager \<Rightarrow> ShapeManager" where
  "createResizeHandles k m0 =
     (let m = clearResizeHandles m0
      in case map_get (shapes m) k of
           None \<Rightarrow> m
         | Some shapeData \<Rightarrow>
             (case geometry (shape shapeData) of
                Polygon coords \<Rightarrow>
                  m\<lparr>resizeHandles := map (\<lambda>(i, c). newHandle k i c) (enumerate 0 coords)\<rparr>
              | Point c r \<Rightarrow>
                  (let radius = radius_or_5 r
                   in m\<lparr>resizeHandles :=
                          map (\<lambda>(i, d). newHandle k i (fst c + fst d * radius, snd c + snd d * radius))
                            (enumerate 0 directions)\<rparr>)
              | Line ps \<Rightarrow> m))"

text \<open>\<open>if (this.resizeHandles[index]) ...position.set(...)\<close> for the indices of \<open>ps\<close>.\<close>

fun positionHandles :: "Coordinate list \<Rightarrow> ResizeHandleGraphics list \<Rightarrow> ResizeHandleGraphics list" where
  "positionHandles (p # ps) (h # hs) = h\<lparr>position := p\<rparr> # positionHandles ps hs"
| "positionHandles ps hs = hs"

definition updateResizeHandles :: "string \<Rightarrow> ShapeManager \<Rightarrow> ShapeManager" where
  "updateResizeHandles k m =
     (case map_get (shapes m) k of
        None \<Rightarrow> m
      | Some shapeData \<Rightarrow>
          (case geometry (shape shapeData) of
             Polygon coords \<Rightarrow> m\<lparr>resizeHandles := positionHandles coords (resizeHandles m)\<rparr>
           | Point c r \<Rightarrow>
               (let radius = radius_or_5 r
                in m\<lparr>resizeHandles :=
                       positionHandles
                         (map (\<lambda>d. (fst c + fst d * radius, snd c + snd d * radius)) directions)
                         (resizeHandles m)\<rparr>)
           | Line ps \<Rightarrow> m))"

definition enableResize :: "ShapeManager \<Rightarrow> ShapeManager" where
  "enableResize m = m\<lparr>resizeHandles := map (\<lambda>h. h\<lparr>resize_enabled := True\<rparr>) (resizeHandles m)\<rparr>"

definition notifySelection :: "string list \<Rightarrow> ShapeManager \<Rightarrow> ShapeManager" where
  "notifySelection ids m =
     (if selectionChangedCallback m then m\<lparr>selectionNotified := selectionNotified m @ [ids]\<rparr> else m)"

text \<open>
  The first statement of \<open>selectShape\<close>, run when \<open>multiSelect\<close> is false: every selected
  shape is redrawn without highlight, the set is emptied and the handles are discarded.
\<close>

definition clearPrevious :: "ShapeManager \<Rightarrow> ShapeManager" where
  "clearPrevious m =
     clearResizeHandles
       ((foldl (\<lambda>acc selectedId. updateShapeVisuals selectedId False acc) m (selectedShapes m))
          \<lparr>selectedShapes := []\<rparr>)"

text \<open>The rest of \<open>selectShape\<close>: the id enters the set and is highlighted.\<close>

definition addSelected :: "string \<Rightarrow> ShapeManager \<Rightarrow> ShapeManager" where
  "addSelected k m =
     (let m1 = m\<lparr>selectedShapes := set_add k (selectedShapes m)\<rparr>;
          m2 = updateShapeVisuals k True m1;
          m3 = (if length (selectedShapes m2) = 1 then enableResize (createResizeHandles k m2)
                else clearResizeHandles m2)
      in notifySelection (selectedShapes m3) m3)"

definition selectShape :: "string \<Rightarrow> bool \<Rightarrow> ShapeManager \<Rightarrow> ShapeManager" where
  "selectShape k multiSelect m = addSelected k (if \<not> multiSelect then clearPrevious m else m)"

definition deselectShape :: "string \<Rightarrow> ShapeManager \<Rightarrow> ShapeManager" where
  "deselectShape k m =
     (if k \<in> set (selectedShapes m) then
        (let m1 = m\<lparr>selectedShapes := set_delete k (selectedShapes m)\<rparr>;
             m2 = updateShapeVisuals k False m1;
             m3 = (if length (selectedShapes m2) = 1
                   then enableResize (createResizeHandles (hd (selectedShapes m2)) m2)
                   else clearResizeHandles m2)
         in notifySelection (selectedShapes m3) m3)
      else m)"

definition clearSelection :: "ShapeManager \<Rightarrow> ShapeManager" where
  "clearSelection m =
     notifySelection []
       (clearResizeHandles
          ((foldl (\<lambda>acc k. updateShapeVisuals k False acc) m (selectedShapes m))
             \<lparr>selectedShapes := []\<rparr>))"

definition isSelected :: "string \<Rightarrow> ShapeManager \<Rightarrow> bool" where
  "isSelected k m \<longleftrightarrow> k \<in> set (selectedShapes m)"

definition onSelectionChanged :: "ShapeManager \<Rightarrow> ShapeManager" where
  "onSelectionChanged m = m\<lparr>selectionChangedCallback := True\<rparr>"

subsection \<open>Pointer gestures\<close>

text \<open>
  A call that throws leaves the manager as the statements before the throw made it, so
  the error comes with that manager.
\<close>

type_synonym outcome = "(error \<times> ShapeManager) + ShapeManager"

text \<open>
  The \<open>pointerdown\<close> listener that \<open>enableDragAndDrop shapeId graphics\<close> registers;
  \<open>g\<close> is the identity of that graphics object, which has a parent iff it is a child
  of the shapes container. Reading \<open>.x\<close> of the first coordinate of an empty list throws.
\<close>

definition dragPointerDown :: "string \<Rightarrow> nat \<Rightarrow> Coordinate \<Rightarrow> ShapeManager \<Rightarrow> outcome" where
  "dragPointerDown k g globalPos m =
     (if isSelected k m \<and> g \<in> set (shapesContainer m) then
        (let m1 = m\<lparr>isDragging := True, activeShapeId := Some k\<rparr>
         in case map_get (shapes m1) k of
              None \<Rightarrow> Inr m1
            | Some shapeData \<Rightarrow>
                (let localPos = toLocal m1 globalPos
                 in case geometry (shape shapeData) of
                      Polygon coords \<Rightarrow>
                        (case coords of
                           [] \<Rightarrow> Inl (TypeError, m1)
                         | firstCoord # _ \<Rightarrow>
                             Inr (m1\<lparr>dragOffset := (fst localPos - fst firstCoord,
                                                    snd localPos - snd firstCoord)\<rparr>))
                    | Point c r \<Rightarrow>
                        Inr (m1\<lparr>dragOffset := (fst localPos - fst c, snd localPos - snd c)\<rparr>)
                    | Line points \<Rightarrow>
                        (case points of
                           [] \<Rightarrow> Inl (TypeError, m1)
                         | firstPoint # _ \<Rightarrow>
                             Inr (m1\<lparr>dragOffset := (fst localPos - fst firstPoint,
                                                    snd localPos - snd firstPoint)\<rparr>))))
      else Inr m)"

text \<open>The \<open>pointerdown\<close> listener of a resize handle (\<open>enableResize\<close>).\<close>

definition resizePointerDown :: "ResizeHandleGraphics \<Rightarrow> ShapeManager \<Rightarrow> ShapeManager" where
  "resizePointerDown h m =
     m\<lparr>isResizing := True,
       resizeHandleIndex := (case handleIndex h of Some i \<Rightarrow> i | None \<Rightarrow> -1),
       activeShapeId := shapeId h\<rparr>"

definition setShape :: "string \<Rightarrow> ShapeData \<Rightarrow> real Geometry \<Rightarrow> ShapeManager \<Rightarrow> ShapeManager" where
  "setShape k shapeData geo m =
     m\<lparr>shapes := map_set k (shapeData\<lparr>shape := (shape shapeData)\<lparr>geometry := geo\<rparr>\<rparr>) (shapes m)\<rparr>"

definition translate :: "real \<Rightarrow> real \<Rightarrow> Coordinate list \<Rightarrow> Coordinate list" where
  "translate dx dy cs = map (\<lambda>c. (fst c + dx, snd c + dy)) cs"

definition handlePointerMove :: "Coordinate \<Rightarrow> ShapeManager \<Rightarrow> outcome" where
  "handlePointerMove globalPos m =
     (if isDragging m \<and> truthy_id (activeShapeId m) then
        (let k = the (activeShapeId m)
         in case map_get (shapes m) k of
              None \<Rightarrow> Inr m
            | Some shapeData \<Rightarrow>
                (let localPos = toLocal m globalPos;
                     finish = (\<lambda>m'. Inr (updateResizeHandles k (updateShapeVisuals k True m')))
                 in case geometry (shape shapeData) of
                      Polygon coords \<Rightarrow>
                        (case coords of
                           [] \<Rightarrow> Inl (TypeError, m)
                         | c0 # _ \<Rightarrow>
                             (let dx = fst localPos - fst (dragOffset m) - fst c0;
                                  dy = snd localPos - snd (dragOffset m) - snd c0
                              in finish (setShape k shapeData (Polygon (translate dx dy coords)) m)))
                    | Point c r \<Rightarrow>
                        finish (setShape k shapeData
                                  (Point (fst localPos - fst (dragOffset m),
                                          snd localPos - snd (dragOffset m)) r) m)
                    | Line points \<Rightarrow>
                        (case points of
                           [] \<Rightarrow> Inl (TypeError, m)
                         | p0 # _ \<Rightarrow>
                             (let dx = fst localPos - fst (dragOffset m) - fst p0;
                                  dy = snd localPos - snd (dragOffset m) - snd p0
                              in finish (setShape k shapeData (Line (translate dx dy points)) m)))))
      else if isResizing m \<and> truthy_id (activeShapeId m) then
        (let k = the (activeShapeId m)
         in case map_get (shapes m) k of
              None \<Rightarrow> Inr m
            | Some shapeData \<Rightarrow>
                (let localPos = toLocal m globalPos;
                     finish = (\<lambda>m'. Inr (updateResizeHandles k (updateShapeVisuals k True m')))
                 in case geometry (shape shapeData) of
                      Polygon coords \<Rightarrow>
                        (if 0 \<le> resizeHandleIndex m \<and> resizeHandleIndex m < int (length coords)
                         then finish (setShape k shapeData
                                        (Polygon (coords[nat (resizeHandleIndex m) := localPos])) m)
                         else Inl (TypeError, m))
                    | Point c r \<Rightarrow>
                        (let dx = fst localPos - fst c;
                             dy = snd localPos - snd c;
                             newRadius = sqrt (dx * dx + dy * dy)
                         in finish (setShape k shapeData (Point c (Some (max 3 newRadius))) m))
                    | Line points \<Rightarrow> finish m))
      else Inr m)"

definition handlePointerUp :: "ShapeManager \<Rightarrow> ShapeManager" where
  "handlePointerUp m =
     m\<lparr>isDragging := False, isResizing := False, activeShapeId := None, resizeHandleIndex := -1\<rparr>"

subsection \<open>Creating shapes at a position\<close>

definition digit_char :: "nat \<Rightarrow> char" where
  "digit_char d = ''0123456789'' ! d"

fun showNat :: "nat \<Rightarrow> string" where
  "showNat n = (if n < 10 then [digit_char n] else showNat (n div 10) @ [digit_char (n mod 10)])"

declare showNat.simps [simp del]

definition showInt :: "int \<Rightarrow> string" where
  "showInt i = (if i < 0 then CHR ''-'' # showNat (nat (- i)) else showNat (nat i))"

text \<open>
  \<open>now\<close> is the value of \<open>Date.now()\<close>; an absent last argument takes the default of
  the signature.
\<close>

definition createNewPolygon :: "real \<Rightarrow> real \<Rightarrow> real option \<Rightarrow> nat \<Rightarrow> ShapeManager \<Rightarrow> ShapeManager \<times> CShape" where
  "createNewPolygon px py size_opt now m =
     (let size = (case size_opt of Some v \<Rightarrow> v | None \<Rightarrow> 50);
          halfSize = size / 2;
          newShape = \<lparr>shape_id = ''polygon-'' @ showNat now,
                      geometry = Polygon [(px - halfSize, py - halfSize), (px + halfSize, py - halfSize),
                                          (px + halfSize, py + halfSize), (px - halfSize, py + halfSize)],
                      style = \<lparr>fillColor = Some ''#90EE90'', borderColor = Some ''#228B22'',
                               borderWidth = Some (Num 2), opacity = None\<rparr>,
                      label = None\<rparr>
      in (fst (addShape newShape m), newShape))"

definition createNewLine :: "real \<Rightarrow> real \<Rightarrow> real option \<Rightarrow> nat \<Rightarrow> ShapeManager \<Rightarrow> ShapeManager \<times> CShape" where
  "createNewLine px py length_opt now m =
     (let len = (case length_opt of Some v \<Rightarrow> v | None \<Rightarrow> 100);
          newShape = \<lparr>shape_id = ''line-'' @ showNat now,
                      geometry = Line [(px, py), (px + len, py)],
                      style = \<lparr>fillColor = None, borderColor = Some ''#0066ff'',
                               borderWidth = Some (Num 2), opacity = None\<rparr>,
                      label = None\<rparr>
      in (fst (addShape newShape m), newShape))"

definition createNewPoint :: "real \<Rightarrow> real \<Rightarrow> real option \<Rightarrow> nat \<Rightarrow> ShapeManager \<Rightarrow> ShapeManager \<times> CShape" where
  "createNewPoint px py radius_opt now m =
     (let radius = (case radius_opt of Some v \<Rightarrow> v | None \<Rightarrow> 8);
          newShape = \<lparr>shape_id = ''point-'' @ showNat now,
                      geometry = Point (px, py) (Some radius),
                      style = \<lparr>fillColor = Some ''#FF6347'', borderColor = Some ''#8B0000'',
                               borderWidth = Some (Num 2), opacity = None\<rparr>,
                      label = None\<rparr>
      in (fst (addShape newShape m), newShape))"

subsection \<open>The operations of the manager as one step function\<close>

datatype Op =
    OpAddShape CShape
  | OpBuildSpatialIndex
  | OpRemoveShape string
  | OpClear
  | OpSelectShape string bool
  | OpDeselectShape string
  | OpClearSelection
  | OpOnSelectionChanged
  | OpDragPointerDown string nat Coordinate
  | OpResizePointerDown nat
  | OpPointerMove Coordinate
  | OpPointerUp
  | OpCreateNewPolygon real real "real option" nat
  | OpCreateNewLine real real "real option" nat
  | OpCreateNewPoint real real "real option" nat
  | OpCullShapes ViewportBounds

definition after :: "outcome \<Rightarrow> ShapeManager" where
  "after r = (case r of Inl (e, m) \<Rightarrow> m | Inr m \<Rightarrow> m)"

text \<open>
  The manager after an operation, thrown or not. A handle receives \<open>pointerdown\<close> only
  while it is one of the current handles and has its listener: \<open>OpResizePointerDown i\<close>
  is the event on the \<open>i\<close>-th of them.
\<close>

fun run :: "Op \<Rightarrow> ShapeManager \<Rightarrow> ShapeManager" where
  "run (OpAddShape sh) m = fst (addShape sh m)"
| "run OpBuildSpatialIndex m = buildSpatialIndex m"
| "run (OpRemoveShape k) m = removeShape k m"
| "run OpClear m = clear m"
| "run (OpSelectShape k multi) m = selectShape k multi m"
| "run (OpDeselectShape k) m = deselectShape k m"
| "run OpClearSelection m = clearSelection m"
| "run OpOnSelectionChanged m = onSelectionChanged m"
| "run (OpDragPointerDown k g pos) m = after (dragPointerDown k g pos m)"
| "run (OpResizePointerDown i) m =
     (if i < length (resizeHandles m) \<and> resize_enabled (resizeHandles m ! i)
      then resizePointerDown (resizeHandles m ! i) m else m)"
| "run (OpPointerMove pos) m = after (handlePointerMove pos m)"
| "run OpPointerUp m = handlePointerUp m"
| "run (OpCreateNewPolygon px py sz now) m = fst (createNewPolygon px py sz now m)"
| "run (OpCreateNewLine px py len now) m = fst (createNewLine px py len now m)"
| "run (OpCreateNewPoint px py r now) m = fst (createNewPoint px py r now m)"
| "run (OpCullShapes v) m = fst (cullShapes v m)"


subsection \<open>The scene invariant\<close>

text \<open>
  \<open>store_inv\<close>: every entry of the store has \<open>inScene\<close> true iff its graphics object is
  a child of the shapes container. With it go the facts about object identity that
  keep it: the graphics objects of the entries are different objects, every object in
  the store or in the container was made before \<open>nextGid\<close>, and a container holds a
  child once.
\<close>

definition entry_gid :: "string \<times> ShapeData \<Rightarrow> nat" where
  "entry_gid e = gid (graphics (snd e))"

definition attached_iff :: "nat list \<Rightarrow> string \<times> ShapeData \<Rightarrow> bool" where
  "attached_iff children e \<longleftrightarrow> (inScene (snd e) \<longleftrightarrow> entry_gid e \<in> set children)"

definition store_inv :: "ShapeManager \<Rightarrow> bool" where
  "store_inv m \<longleftrightarrow>
     (\<forall>e \<in> set (shapes m). attached_iff (shapesContainer m) e) \<and>
     distinct (map entry_gid (shapes m)) \<and>
     (\<forall>e \<in> set (shapes m). entry_gid e < nextGid m) \<and>
     distinct (shapesContainer m) \<and>
     (\<forall>g \<in> set (shapesContainer m). g < nextGid m)"

definition inv3 :: "(string \<times> ShapeData) list \<Rightarrow> nat list \<Rightarrow> nat \<Rightarrow> bool" where
  "inv3 ss cs n \<longleftrightarrow>
     (\<forall>e \<in> set ss. attached_iff cs e) \<and> distinct (map entry_gid ss) \<and>
     (\<forall>e \<in> set ss. entry_gid e < n) \<and> distinct cs \<and> (\<forall>g \<in> set cs. g < n)"

text \<open>Every binding of \<open>ss'\<close> is a binding of \<open>ss\<close> (the same object) with the same flag.\<close>

definition sub_bind :: "(string \<times> ShapeData) list \<Rightarrow> (string \<times> ShapeData) list \<Rightarrow> bool" where
  "sub_bind ss ss' \<longleftrightarrow>
     (\<forall>e \<in> set ss'. \<exists>e0 \<in> set ss. entry_gid e = entry_gid e0 \<and> inScene (snd e) = inScene (snd e0))"

text \<open>
  From \<open>m\<close> to \<open>m'\<close> no flag is toggled and nothing is attached: a binding of \<open>m'\<close> is a
  binding of \<open>m\<close> with its flag, or a new one that is not in the scene and whose
  graphics is not a child; and the container has no new child.
\<close>

definition no_toggle :: "ShapeManager \<Rightarrow> ShapeManager \<Rightarrow> bool" where
  "no_toggle m m' \<longleftrightarrow>
     (\<forall>e \<in> set (shapes m').
        (\<exists>e0 \<in> set (shapes m). entry_gid e = entry_gid e0 \<and> inScene (snd e) = inScene (snd e0)) \<or>
        (entry_gid e \<notin> entry_gid ` set (shapes m) \<and> \<not> inScene (snd e) \<and>
         entry_gid e \<notin> set (shapesContainer m'))) \<and>
     set (shapesContainer m') \<subseteq> set (shapesContainer m)"

fun is_cull :: "Op \<Rightarrow> bool" where
  "is_cull (OpCullShapes v) = True"
| "is_cull _ = False"

subsection \<open>Example stores\<close>

definition no_style :: ShapeStyle where
  "no_style = \<lparr>fillColor = None, borderColor = None, borderWidth = None, opacity = None\<rparr>"

definition poly_a :: CShape where
  "poly_a = \<lparr>shape_id = ''a'', geometry = Polygon [(0, 0), (10, 0), (10, 10)],
             style = no_style, label = None\<rparr>"

definition point_p :: CShape where
  "point_p = \<lparr>shape_id = ''p'', geometry = Point (0, 0) (Some 8), style = no_style, label = None\<rparr>"

text \<open>A viewport of 10000 by 10000 units around the origin: the zoom-out factor is 5.\<close>

definition view_medium :: ViewportBounds where
  "view_medium = \<lparr>vp_x = -5000, vp_y = -5000, vp_width = 10000, vp_height = 10000\<rparr>"

text \<open>The polygon \<open>a\<close> added and indexed; then selected; then attached by a cull pass.\<close>

definition store_a :: ShapeManager where
  "store_a = buildSpatialIndex (fst (addShape poly_a (newShapeManager id True)))"

text \<open>The polygon \<open>a\<close> and the point \<open>p\<close> in one store.\<close>

definition store_ap :: ShapeManager where
  "store_ap = fst (addShape point_p (fst (addShape poly_a (newShapeManager id True))))"

definition selected_a :: ShapeManager where
  "selected_a = selectShape ''a'' False store_a"

definition attached_a :: ShapeManager where
  "attached_a = fst (cullShapes view_medium selected_a)"

text \<open>A drag of \<open>a\<close> has begun, and \<open>a\<close> is removed before the next pointer event.\<close>

definition stale_drag :: ShapeManager where
  "stale_drag = removeShape ''a'' (after (dragPointerDown ''a'' 0 (1, 1) attached_a))"



section \<open>The project importer (utils/jsonParser.ts)\<close>

subsection \<open>The project document\<close>

text \<open>
  A number of the document is a \<open>jsnum\<close> (\<open>JSON.parse\<close> gives \<open>Infinity\<close> for \<open>1e999\<close>),
  except the ordinal numbers \<open>Number\<close> and \<open>Index\<close>, which are integers and are
  printed in decimal. A part that the guarded importer tests for absence is an \<open>option\<close>
  (\<open>None\<close> for \<open>null\<close> or \<open>undefined\<close>). \<open>Laterals\<close> of a block stands for
  \<open>block.Laterals.Laterals\<close>, absent when either level is. A style entry \<open>{Value}\<close> is
  the \<open>StyleValue\<close> of its \<open>Value\<close>, absent when the entry or its \<open>Value\<close> is.
\<close>

datatype StyleValue = SVString string | SVNumber jsnum

record LateralDesignLineStyle =
  PreHydraulicCalculationBorderColor :: "StyleValue option"
  PostHydraulicCalculationBorderColor :: "StyleValue option"
  PreHydraulicCalculationBorderWidth :: "StyleValue option"
  PostHydraulicCalculationBorderWidth :: "StyleValue option"

record ExternalSnapshot =
  BlockDesignFillColor :: "StyleValue option"
  BlockDesignBorderColor :: "StyleValue option"
  BlockDesignBorderWidth :: "StyleValue option"
  BlockDesignOpacity :: "StyleValue option"
  LateralDesignLineStyle :: "LateralDesignLineStyle option"

record Lateral =
  Index :: int
  Layout :: "jsnum list option list option"

record Block =
  Id :: string
  Name :: string
  Number :: int
  Coordinates :: "jsnum list option list option"
  Laterals :: "Lateral option list option"
  ExternalSnapshot :: "ExternalSnapshot option"

record SubArea =
  Id :: string
  Name :: string
  Number :: int
  Coordinates :: "jsnum list option list option"
  Blocks :: "Block option list option"

record IrrigationProject =
  Id :: string
  Name :: string
  SubAreas :: "SubArea option list option"

text \<open>
  \<open>String(v)\<close> of a number and \<open>Number(v)\<close> of a string are the runtime's conversions,
  taken as parameters.
\<close>

record Runtime =
  numberToString :: "jsnum \<Rightarrow> string"
  stringToNumber :: "string \<Rightarrow> jsnum"

fun js_String :: "Runtime \<Rightarrow> StyleValue \<Rightarrow> string" where
  "js_String rt (SVString s) = s"
| "js_String rt (SVNumber n) = numberToString rt n"

fun js_Number :: "Runtime \<Rightarrow> StyleValue \<Rightarrow> jsnum" where
  "js_Number rt (SVNumber n) = n"
| "js_Number rt (SVString s) = stringToNumber rt s"

fun truthy_value :: "StyleValue option \<Rightarrow> bool" where
  "truthy_value None = False"
| "truthy_value (Some (SVString s)) = (s \<noteq> [])"
| "truthy_value (Some (SVNumber n)) = (n \<noteq> Num 0 \<and> n \<noteq> NaN)"

fun js_neg :: "jsnum \<Rightarrow> jsnum" where
  "js_neg (Num a) = Num (- a)"
| "js_neg PosInf = NegInf"
| "js_neg NegInf = PosInf"
| "js_neg NaN = NaN"

text \<open>Division by the positive constant \<open>d\<close>.\<close>

fun js_div_by :: "real \<Rightarrow> jsnum \<Rightarrow> jsnum" where
  "js_div_by d (Num a) = Num (a / d)"
| "js_div_by d v = v"

datatype Warning =
    InvalidProject
  | SkippingInvalidSubarea "string option"
  | SubareaInsufficient string
  | SkippingInvalidBlock "string option"
  | BlockInsufficient string

subsection \<open>The importer with guards\<close>

text \<open>
  This is the \<open>parseIrrigationProject\<close> that tests its input (\<open>src/unnamed/part_001\<close>).
  It returns the shapes and the warnings written to the console.
  \<open>coordsArrayToCoordinate\<close> gives \<open>null\<close> unless the row has two finite numbers first.
\<close>

fun coordsArrayToCoordinate :: "jsnum list option \<Rightarrow> Coordinate option" where
  "coordsArrayToCoordinate (Some (Num a # Num b # rest)) = Some (a, - b)"
| "coordsArrayToCoordinate _ = None"

text \<open>\<open>.filter(coord => coord !== null)\<close>\<close>

fun filterNotNull :: "'a option list \<Rightarrow> 'a list" where
  "filterNotNull [] = []"
| "filterNotNull (None # xs) = filterNotNull xs"
| "filterNotNull (Some a # xs) = a # filterNotNull xs"

definition usable :: "jsnum list option list \<Rightarrow> Coordinate list" where
  "usable rows = filterNotNull (map coordsArrayToCoordinate rows)"

definition subAreaStyle :: ShapeStyle where
  "subAreaStyle = \<lparr>fillColor = Some ''#FFFFFF'', borderColor = Some ''#00CC00'',
                   borderWidth = Some (Num 2), opacity = Some (Num 0.3)\<rparr>"

definition blockStyle :: "Runtime \<Rightarrow> ExternalSnapshot option \<Rightarrow> ShapeStyle" where
  "blockStyle rt externalSnapshot =
     (case externalSnapshot of
        None \<Rightarrow> \<lparr>fillColor = Some ''#FFFFFF'', borderColor = Some ''#0038FF'',
                  borderWidth = Some (Num 1), opacity = Some (Num 0.2)\<rparr>
      | Some es \<Rightarrow>
          \<lparr>fillColor = Some (if truthy_value (BlockDesignFillColor es)
                              then js_String rt (the (BlockDesignFillColor es)) else ''#FFFFFF''),
           borderColor = Some (if truthy_value (BlockDesignBorderColor es)
                                then js_String rt (the (BlockDesignBorderColor es)) else ''#0038FF''),
           borderWidth = Some (case BlockDesignBorderWidth es of
                                 Some v \<Rightarrow> js_Number rt v | None \<Rightarrow> Num 1),
           opacity = Some (case BlockDesignOpacity es of
                             Some v \<Rightarrow> js_div_by 100 (js_Number rt v) | None \<Rightarrow> Num 0.2)\<rparr>)"

definition lateralStyle :: "Runtime \<Rightarrow> ExternalSnapshot option \<Rightarrow> ShapeStyle" where
  "lateralStyle rt externalSnapshot =
     (case (case externalSnapshot of None \<Rightarrow> None | Some es \<Rightarrow> LateralDesignLineStyle es) of
        None \<Rightarrow> \<lparr>fillColor = None, borderColor = Some ''#0038FF'',
                  borderWidth = Some (Num 1), opacity = None\<rparr>
      | Some ls \<Rightarrow>
          \<lparr>fillColor = None,
           borderColor = Some
             (if truthy_value (PreHydraulicCalculationBorderColor ls)
              then js_String rt (the (PreHydraulicCalculationBorderColor ls))
              else if truthy_value (PostHydraulicCalculationBorderColor ls)
              then js_String rt (the (PostHydraulicCalculationBorderColor ls))
              else ''#0038FF''),
           borderWidth = Some
             (case PreHydraulicCalculationBorderWidth ls of
                Some v \<Rightarrow> js_Number rt v
              | None \<Rightarrow> (case PostHydraulicCalculationBorderWidth ls of
                           Some v \<Rightarrow> js_Number rt v
                         | None \<Rightarrow> Num 1)),
           opacity = None\<rparr>)"

text \<open>The body of the \<open>forEach\<close> over the laterals of the block \<open>blockId\<close>.\<close>

definition parseLateral :: "string \<Rightarrow> ShapeStyle \<Rightarrow> Lateral option \<Rightarrow> CShape list" where
  "parseLateral blockId st lat =
     (case lat of
        None \<Rightarrow> []
      | Some lateral \<Rightarrow>
          (case Layout lateral of
             None \<Rightarrow> []
           | Some layout \<Rightarrow>
               if length layout < 2 then []
               else (let lateralPoints = usable layout
                     in if length lateralPoints < 2 then []
                        else [\<lparr>shape_id = ''lateral-'' @ blockId @ ''-'' @ showInt (Index lateral),
                               geometry = Line lateralPoints, style = st, label = None\<rparr>])))"

text \<open>The body of the \<open>forEach\<close> over the blocks of a sub-area.\<close>

definition parseBlock :: "Runtime \<Rightarrow> Block option \<Rightarrow> CShape list \<times> Warning list" where
  "parseBlock rt blk =
     (case blk of
        None \<Rightarrow> ([], [SkippingInvalidBlock None])
      | Some block \<Rightarrow>
          (case Block.Coordinates block of
             None \<Rightarrow> ([], [SkippingInvalidBlock (Some (Block.Id block))])
           | Some rows \<Rightarrow>
               if length rows < 3 then ([], [SkippingInvalidBlock (Some (Block.Id block))])
               else (let blockCoordinates = usable rows
                     in if length blockCoordinates < 3 then ([], [BlockInsufficient (Block.Id block)])
                        else (let blockShape =
                                    \<lparr>shape_id = ''block-'' @ Block.Id block,
                                     geometry = Polygon blockCoordinates,
                                     style = blockStyle rt (ExternalSnapshot block),
                                     label = Some (''Block '' @ showInt (Block.Number block))\<rparr>
                              in case Laterals block of
                                   None \<Rightarrow> ([blockShape], [])
                                 | Some lats \<Rightarrow>
                                     (blockShape #
                                        concat (map (parseLateral (Block.Id block)
                                                       (lateralStyle rt (ExternalSnapshot block))) lats),
                                      [])))))"

text \<open>The body of the \<open>forEach\<close> over the sub-areas.\<close>

definition parseSubArea :: "Runtime \<Rightarrow> SubArea option \<Rightarrow> CShape list \<times> Warning list" where
  "parseSubArea rt sa =
     (case sa of
        None \<Rightarrow> ([], [SkippingInvalidSubarea None])
      | Some subArea \<Rightarrow>
          (case SubArea.Coordinates subArea of
             None \<Rightarrow> ([], [SkippingInvalidSubarea (Some (SubArea.Id subArea))])
           | Some rows \<Rightarrow>
               if length rows < 3 then ([], [SkippingInvalidSubarea (Some (SubArea.Id subArea))])
               else (let coordinates = usable rows
                     in if length coordinates < 3 then ([], [SubareaInsufficient (SubArea.Id subArea)])
                        else (let areaShape =
                                    \<lparr>shape_id = ''subarea-'' @ SubArea.Id subArea,
                                     geometry = Polygon coordinates,
                                     style = subAreaStyle,
                                     label = Some (''SubArea '' @ showInt (SubArea.Number subArea))\<rparr>
                              in case Blocks subArea of
                                   None \<Rightarrow> ([areaShape], [])
                                 | Some blocks \<Rightarrow>
                                     (areaShape # concat (map (fst \<circ> parseBlock rt) blocks),
                                      concat (map (snd \<circ> parseBlock rt) blocks))))))"

definition parseIrrigationProject ::
  "Runtime \<Rightarrow> IrrigationProject option \<Rightarrow> CShape list \<times> Warning list" where
  "parseIrrigationProject rt json =
     (case json of
        None \<Rightarrow> ([], [InvalidProject])
      | Some project \<Rightarrow>
          (case SubAreas project of
             None \<Rightarrow> ([], [InvalidProject])
           | Some subAreas \<Rightarrow>
               (concat (map (fst \<circ> parseSubArea rt) subAreas),
                concat (map (snd \<circ> parseSubArea rt) subAreas))))"

subsection \<open>The importer without guards\<close>

text \<open>
  This is the \<open>parseIrrigationProject\<close> of \<open>src/utils/jsonParser.ts\<close>. It tests only the
  layout of a lateral. A coordinate of its output can be \<open>undefined\<close> (the \<open>x\<close> of an
  empty row) or \<open>NaN\<close>, so a number of its shapes is a \<open>jsnum option\<close>; a style value is
  the \<open>Value\<close> of the document as it is. Reading a property of \<open>null\<close> or \<open>undefined\<close>
  throws, and the call returns nothing.
\<close>

record RawStyle =
  raw_fillColor :: "StyleValue option"
  raw_borderColor :: "StyleValue option"
  raw_borderWidth :: "StyleValue option"
  raw_opacity :: "jsnum option"

type_synonym RawShape = "(jsnum option, RawStyle) Shape"

fun nth_opt :: "'a list \<Rightarrow> nat \<Rightarrow> 'a option" where
  "nth_opt [] i = None"
| "nth_opt (a # xs) 0 = Some a"
| "nth_opt (a # xs) (Suc i) = nth_opt xs i"

text \<open>\<open>{x: coords[0], y: -coords[1]}\<close>; \<open>-undefined\<close> is \<open>NaN\<close>.\<close>

definition coordsArrayToCoordinate_unguarded ::
  "jsnum list option \<Rightarrow> error + (jsnum option \<times> jsnum option)" where
  "coordsArrayToCoordinate_unguarded row =
     (case row of
        None \<Rightarrow> Inl TypeError
      | Some coords \<Rightarrow>
          Inr (nth_opt coords 0,
               Some (case nth_opt coords 1 of Some v \<Rightarrow> js_neg v | None \<Rightarrow> NaN)))"

text \<open>A \<open>map\<close> or \<open>forEach\<close> whose callback can throw: the first throw ends it.\<close>

fun mapE :: "('a \<Rightarrow> error + 'b) \<Rightarrow> 'a list \<Rightarrow> error + 'b list" where
  "mapE f [] = Inr []"
| "mapE f (a # xs) =
     (case f a of
        Inl e \<Rightarrow> Inl e
      | Inr b \<Rightarrow> (case mapE f xs of Inl e \<Rightarrow> Inl e | Inr bs \<Rightarrow> Inr (b # bs)))"

definition blockStyle_unguarded :: "Runtime \<Rightarrow> ExternalSnapshot option \<Rightarrow> RawStyle" where
  "blockStyle_unguarded rt externalSnapshot =
     (case externalSnapshot of
        None \<Rightarrow> \<lparr>raw_fillColor = Some (SVString ''#FFFFFF''), raw_borderColor = Some (SVString ''#0038FF''),
                  raw_borderWidth = Some (SVNumber (Num 1)), raw_opacity = Some (Num 0.2)\<rparr>
      | Some es \<Rightarrow>
          \<lparr>raw_fillColor = (if truthy_value (BlockDesignFillColor es)
                             then BlockDesignFillColor es else Some (SVString ''#FFFFFF'')),
           raw_borderColor = (if truthy_value (BlockDesignBorderColor es)
                               then BlockDesignBorderColor es else Some (SVString ''#0038FF'')),
           raw_borderWidth = (case BlockDesignBorderWidth es of
                                Some v \<Rightarrow> Some v | None \<Rightarrow> Some (SVNumber (Num 1))),
           raw_opacity = Some (case BlockDesignOpacity es of
                                 Some v \<Rightarrow> js_div_by 100 (js_Number rt v) | None \<Rightarrow> Num 0.2)\<rparr>)"

definition lateralStyle_unguarded :: "ExternalSnapshot option \<Rightarrow> RawStyle" where
  "lateralStyle_unguarded externalSnapshot =
     (case (case externalSnapshot of None \<Rightarrow> None | Some es \<Rightarrow> LateralDesignLineStyle es) of
        None \<Rightarrow> \<lparr>raw_fillColor = None, raw_borderColor = Some (SVString ''#0038FF''),
                  raw_borderWidth = Some (SVNumber (Num 1)), raw_opacity = None\<rparr>
      | Some ls \<Rightarrow>
          \<lparr>raw_fillColor = None,
           raw_borderColor =
             (if truthy_value (PreHydraulicCalculationBorderColor ls)
              then PreHydraulicCalculationBorderColor ls
              else if truthy_value (PostHydraulicCalculationBorderColor ls)
              then PostHydraulicCalculationBorderColor ls
              else Some (SVString ''#0038FF'')),
           raw_borderWidth =
             (case PreHydraulicCalculationBorderWidth ls of
                Some v \<Rightarrow> Some v
              | None \<Rightarrow> (case PostHydraulicCalculationBorderWidth ls of
                           Some v \<Rightarrow> Some v
                         | None \<Rightarrow> Some (SVNumber (Num 1)))),
           raw_opacity = None\<rparr>)"

definition parseLateral_unguarded :: "string \<Rightarrow> RawStyle \<Rightarrow> Lateral option \<Rightarrow> error + RawShape list" where
  "parseLateral_unguarded blockId st lat =
     (case lat of
        None \<Rightarrow> Inl TypeError
      | Some lateral \<Rightarrow>
          (case Layout lateral of
             None \<Rightarrow> Inr []
           | Some layout \<Rightarrow>
               if length layout \<ge> 2 then
                 (case mapE coordsArrayToCoordinate_unguarded layout of
                    Inl e \<Rightarrow> Inl e
                  | Inr points \<Rightarrow>
                      Inr [\<lparr>shape_id = ''lateral-'' @ blockId @ ''-'' @ showInt (Index lateral),
                            geometry = Line points, style = st, label = None\<rparr>])
               else Inr []))"

definition parseBlock_unguarded :: "Runtime \<Rightarrow> Block option \<Rightarrow> error + RawShape list" where
  "parseBlock_unguarded rt blk =
     (case blk of
        None \<Rightarrow> Inl TypeError
      | Some block \<Rightarrow>
          (case Block.Coordinates block of
             None \<Rightarrow> Inl TypeError
           | Some rows \<Rightarrow>
               (case mapE coordsArrayToCoordinate_unguarded rows of
                  Inl e \<Rightarrow> Inl e
                | Inr coordinates \<Rightarrow>
                    (let blockShape =
                           \<lparr>shape_id = ''block-'' @ Block.Id block,
                            geometry = Polygon coordinates,
                            style = blockStyle_unguarded rt (ExternalSnapshot block),
                            label = Some (''Block '' @ showInt (Block.Number block))\<rparr>
                     in case Laterals block of
                          None \<Rightarrow> Inl TypeError
                        | Some lats \<Rightarrow>
                            (case mapE (parseLateral_unguarded (Block.Id block)
                                          (lateralStyle_unguarded (ExternalSnapshot block))) lats of
                               Inl e \<Rightarrow> Inl e
                             | Inr ls \<Rightarrow> Inr (blockShape # concat ls))))))"

definition subAreaStyle_unguarded :: RawStyle where
  "subAreaStyle_unguarded =
     \<lparr>raw_fillColor = Some (SVString ''#FFFFFF''), raw_borderColor = Some (SVString ''#00CC00''),
      raw_borderWidth = Some (SVNumber (Num 2)), raw_opacity = Some (Num 0.3)\<rparr>"

definition parseSubArea_unguarded :: "Runtime \<Rightarrow> SubArea option \<Rightarrow> error + RawShape list" where
  "parseSubArea_unguarded rt sa =
     (case sa of
        None \<Rightarrow> Inl TypeError
      | Some subArea \<Rightarrow>
          (case SubArea.Coordinates subArea of
             None \<Rightarrow> Inl TypeError
           | Some rows \<Rightarrow>
               (case mapE coordsArrayToCoordinate_unguarded rows of
                  Inl e \<Rightarrow> Inl e
                | Inr coordinates \<Rightarrow>
                    (let areaShape =
                           \<lparr>shape_id = ''subarea-'' @ SubArea.Id subArea,
                            geometry = Polygon coordinates,
                            style = subAreaStyle_unguarded,
                            label = Some (''SubArea '' @ showInt (SubArea.Number subArea))\<rparr>
                     in case Blocks subArea of
                          None \<Rightarrow> Inl TypeError
                        | Some blocks \<Rightarrow>
                            (case mapE (parseBlock_unguarded rt) blocks of
                               Inl e \<Rightarrow> Inl e
                             | Inr bs \<Rightarrow> Inr (areaShape # concat bs))))))"

definition parseIrrigationProject_unguarded ::
  "Runtime \<Rightarrow> IrrigationProject option \<Rightarrow> error + RawShape list" where
  "parseIrrigationProject_unguarded rt json =
     (case json of
        None \<Rightarrow> Inl TypeError
      | Some project \<Rightarrow>
          (case SubAreas project of
             None \<Rightarrow> Inl TypeError
           | Some subAreas \<Rightarrow>
               (case mapE (parseSubArea_unguarded rt) subAreas of
                  Inl e \<Rightarrow> Inl e
                | Inr ss \<Rightarrow> Inr (concat ss))))"

subsection \<open>An example document\<close>

text \<open>
  One sub-area \<open>A\<close> with a triangle of coordinates and two blocks: \<open>B1\<close> with an empty
  coordinate list and \<open>B2\<close> with a triangle.
\<close>

definition triangle :: "jsnum list option list" where
  "triangle = [Some [Num 0, Num 0], Some [Num 10, Num 0], Some [Num 10, Num 10]]"

definition block_B1 :: Block where
  "block_B1 = \<lparr>Block.Id = ''B1'', Block.Name = ''empty'', Block.Number = 1,
               Block.Coordinates = Some [], Laterals = Some [], ExternalSnapshot = None\<rparr>"

definition block_B2 :: Block where
  "block_B2 = \<lparr>Block.Id = ''B2'', Block.Name = ''triangle'', Block.Number = 2,
               Block.Coordinates = Some triangle, Laterals = Some [], ExternalSnapshot = None\<rparr>"

definition subArea_A :: SubArea where
  "subArea_A = \<lparr>SubArea.Id = ''A'', SubArea.Name = ''area'', SubArea.Number = 1,
                SubArea.Coordinates = Some triangle,
                Blocks = Some [Some block_B1, Some block_B2]\<rparr>"

definition project_AB :: IrrigationProject where
  "project_AB = \<lparr>IrrigationProject.Id = ''P'', IrrigationProject.Name = ''project'',
                 SubAreas = Some [Some subArea_A]\<rparr>"


section \<open>The synthetic generator (utils/stressTestGenerator.ts)\<close>

subsection \<open>The generator\<close>

record StressTestConfig =
  targetShapeCount :: real
  areaWidth :: real
  areaHeight :: real
  baseX :: "real option"
  baseY :: "real option"

text \<open>The pairs \<open>(fill, border)\<close> of \<open>blockColors\<close>.\<close>

definition blockColors :: "(string \<times> string) list" where
  "blockColors =
     [(''#FFEBEE'', ''#F44336''), (''#E3F2FD'', ''#2196F3''), (''#E8F5E9'', ''#4CAF50''),
      (''#FFF3E0'', ''#FF9800''), (''#F3E5F5'', ''#9C27B0''), (''#E0F7FA'', ''#00BCD4''),
      (''#FFF9C4'', ''#FFEB3B''), (''#FCE4EC'', ''#E91E63'')]"

definition subAreaSize :: real where
  "subAreaSize = 1500"

text \<open>
  What the loops read and never change. \<open>random i\<close> is the value of the \<open>i\<close>-th call
  of \<open>Math.random()\<close>. A loop runs on fuel: \<open>budget\<close> is the fuel that a loop gets
  when it starts, and a loop that uses it up returns \<open>None\<close>.
\<close>

record GenCtx =
  budget :: nat
  random :: "nat \<Rightarrow> real"
  target :: real
  originX :: real
  originY :: real
  subAreasPerRow :: int
  subAreasPerCol :: int
  blocksPerSubArea :: jsnum
  lateralsPerBlock :: jsnum

text \<open>What the loops change: the list, \<open>shapeCount\<close>, \<open>subAreaIndex\<close> and the number of calls of \<open>Math.random()\<close>.\<close>

record GenState =
  gen_shapes :: "CShape list"
  shapeCount :: nat
  subAreaIndex :: nat
  randomCalls :: nat

text \<open>The constants of one sub-area and of one block in the inner loops.\<close>

record AreaCtx =
  subAreaX :: real
  subAreaY :: real
  blockSize :: real
  blocksPerRowInSubArea :: jsnum
  blocksPerColInSubArea :: jsnum

record BlockCtx =
  bRow :: nat
  bCol :: nat
  blockX :: real
  blockY :: real
  blockW :: real
  blockH :: real
  lateralColor :: string

definition rectangle :: "real \<Rightarrow> real \<Rightarrow> real \<Rightarrow> real \<Rightarrow> Coordinate list" where
  "rectangle px py w h =
     [(px, - py), (px + w, - py), (px + w, - (py + h)), (px, - (py + h)), (px, - py)]"

text \<open>
  The loop over \<open>l\<close>. \<open>lateralSpacing\<close> is \<open>blockH / (lateralsPerBlock + 1)\<close>: while the
  body runs, \<open>lateralsPerBlock\<close> is above \<open>l\<close>, so it is a number above 0 or
  \<open>Infinity\<close>, for which the quotient is 0.
\<close>

fun lateralLoop :: "nat \<Rightarrow> GenCtx \<Rightarrow> BlockCtx \<Rightarrow> nat \<Rightarrow> GenState \<Rightarrow> GenState option" where
  "lateralLoop 0 G B l st = None"
| "lateralLoop (Suc fuel) G B l st =
     (if js_lt (Num (real l)) (lateralsPerBlock G) \<and> real (shapeCount st) < target G then
        (let lateralSpacing = (case lateralsPerBlock G of Num v \<Rightarrow> blockH B / (v + 1) | _ \<Rightarrow> 0);
             lateralY = blockY B + (real l + 1) * lateralSpacing;
             startX = blockX B + 10;
             endX = blockX B + blockW B - 10;
             lateral =
               \<lparr>shape_id = ''lateral-'' @ showNat (subAreaIndex st) @ ''-'' @ showNat (bRow B) @ ''-'' @
                             showNat (bCol B) @ ''-'' @ showNat l,
                geometry = Line [(startX, - lateralY), (endX, - lateralY)],
                style = \<lparr>fillColor = None, borderColor = Some (lateralColor B),
                         borderWidth = Some (Num 0.5), opacity = None\<rparr>,
                label = None\<rparr>;
             st' = st\<lparr>gen_shapes := gen_shapes st @ [lateral], shapeCount := shapeCount st + 1\<rparr>
         in if real (shapeCount st') \<ge> target G then Some st'
            else lateralLoop fuel G B (Suc l) st')
      else Some st)"

text \<open>
  The loop over \<open>bCol\<close>. \<open>blocksPerColInSubArea\<close> is a result of \<open>Math.ceil\<close>; were it not
  a number, the index into \<open>blockColors\<close> would be \<open>NaN\<close>, \<open>colorPair\<close> undefined and
  \<open>colorPair.fill\<close> would throw.
\<close>

fun bColLoop ::
  "nat \<Rightarrow> GenCtx \<Rightarrow> AreaCtx \<Rightarrow> nat \<Rightarrow> nat \<Rightarrow> GenState \<Rightarrow> (error + GenState) option" where
  "bColLoop 0 G A r c st = None"
| "bColLoop (Suc fuel) G A r c st =
     (if js_lt (Num (real c)) (blocksPerColInSubArea A) \<and> real (shapeCount st) < target G then
        (let n = randomCalls st;
             px = subAreaX A + real r * blockSize A + random G n * 20;
             py = subAreaY A + real c * blockSize A + random G (n + 1) * 20;
             pw = blockSize A - 50 + random G (n + 2) * 30;
             ph = blockSize A - 50 + random G (n + 3) * 30
         in case blocksPerColInSubArea A of
              Num perCol \<Rightarrow>
                (let ordinal = real r * perCol + real c;
                     colorPair = blockColors ! (nat \<lfloor>real (subAreaIndex st) + ordinal\<rfloor> mod length blockColors);
                     block =
                       \<lparr>shape_id = ''block-'' @ showNat (subAreaIndex st) @ ''-'' @ showNat r @ ''-'' @ showNat c,
                        geometry = Polygon (rectangle px py pw ph),
                        style = \<lparr>fillColor = Some (fst colorPair), borderColor = Some (snd colorPair),
                                 borderWidth = Some (Num 1), opacity = Some (Num 0.2)\<rparr>,
                        label = Some (''Block '' @ showInt (\<lfloor>ordinal + 1\<rfloor>))\<rparr>;
                     st1 = st\<lparr>gen_shapes := gen_shapes st @ [block], shapeCount := shapeCount st + 1,
                              randomCalls := n + 4\<rparr>;
                     B = \<lparr>bRow = r, bCol = c, blockX = px, blockY = py, blockW = pw, blockH = ph,
                          lateralColor = snd colorPair\<rparr>
                 in case lateralLoop (budget G) G B 0 st1 of
                      None \<Rightarrow> None
                    | Some st2 \<Rightarrow> bColLoop fuel G A r (Suc c) st2)
            | _ \<Rightarrow> Some (Inl TypeError))
      else Some (Inr st))"

text \<open>The loop over \<open>bRow\<close>.\<close>

fun bRowLoop :: "nat \<Rightarrow> GenCtx \<Rightarrow> AreaCtx \<Rightarrow> nat \<Rightarrow> GenState \<Rightarrow> (error + GenState) option" where
  "bRowLoop 0 G A r st = None"
| "bRowLoop (Suc fuel) G A r st =
     (if js_lt (Num (real r)) (blocksPerRowInSubArea A) \<and> real (shapeCount st) < target G then
        (case bColLoop (budget G) G A r 0 st of
           None \<Rightarrow> None
         | Some (Inl e) \<Rightarrow> Some (Inl e)
         | Some (Inr st') \<Rightarrow> bRowLoop fuel G A (Suc r) st')
      else Some (Inr st))"

text \<open>
  The body of the loop over \<open>col\<close>, up to \<open>subAreaIndex++\<close>. When \<open>blockSize\<close> is not
  a number, \<open>blocksPerRowInSubArea\<close> is \<open>NaN\<close> or 0 and the loop over \<open>bRow\<close> does not
  run.
\<close>

definition subAreaBody :: "GenCtx \<Rightarrow> nat \<Rightarrow> nat \<Rightarrow> GenState \<Rightarrow> (error + GenState) option" where
  "subAreaBody G row col st =
     (let n = randomCalls st;
          ax = originX G + real row * subAreaSize;
          ay = originY G + real col * subAreaSize;
          subAreaWidth = subAreaSize + (random G n - 0.5) * 200;
          subAreaHeight = subAreaSize + (random G (n + 1) - 0.5) * 200;
          subArea =
            \<lparr>shape_id = ''subarea-'' @ showNat (subAreaIndex st),
             geometry = Polygon (rectangle ax ay subAreaWidth subAreaHeight),
             style = \<lparr>fillColor = Some ''#FFFFFF'', borderColor = Some ''#00CC00'',
                      borderWidth = Some (Num 2), opacity = Some (Num 0.3)\<rparr>,
             label = Some (''SubArea '' @ showNat (subAreaIndex st + 1))\<rparr>;
          st1 = st\<lparr>gen_shapes := gen_shapes st @ [subArea], shapeCount := shapeCount st + 1,
                   randomCalls := n + 2\<rparr>;
          size = js_floor (js_div (Num subAreaWidth) (js_sqrt (blocksPerSubArea G)));
          perRow = js_floor (js_div (Num subAreaWidth) size);
          perCol = js_ceil (js_div (blocksPerSubArea G) perRow);
          blocks = (case size of
                      Num bs \<Rightarrow>
                        bRowLoop (budget G) G
                          \<lparr>subAreaX = ax, subAreaY = ay, blockSize = bs,
                           blocksPerRowInSubArea = perRow, blocksPerColInSubArea = perCol\<rparr> 0 st1
                    | _ \<Rightarrow> Some (Inr st1))
      in case blocks of
           None \<Rightarrow> None
         | Some (Inl e) \<Rightarrow> Some (Inl e)
         | Some (Inr st2) \<Rightarrow> Some (Inr (st2\<lparr>subAreaIndex := subAreaIndex st2 + 1\<rparr>)))"

text \<open>The loops over \<open>col\<close> and \<open>row\<close>, each with its \<open>break\<close> when the target is reached.\<close>

fun colLoop :: "nat \<Rightarrow> GenCtx \<Rightarrow> nat \<Rightarrow> nat \<Rightarrow> GenState \<Rightarrow> (error + GenState) option" where
  "colLoop 0 G row col st = None"
| "colLoop (Suc fuel) G row col st =
     (if int col < subAreasPerCol G then
        (case subAreaBody G row col st of
           None \<Rightarrow> None
         | Some (Inl e) \<Rightarrow> Some (Inl e)
         | Some (Inr st') \<Rightarrow>
             if real (shapeCount st') \<ge> target G then Some (Inr st')
             else colLoop fuel G row (Suc col) st')
      else Some (Inr st))"

fun rowLoop :: "nat \<Rightarrow> GenCtx \<Rightarrow> nat \<Rightarrow> GenState \<Rightarrow> (error + GenState) option" where
  "rowLoop 0 G row st = None"
| "rowLoop (Suc fuel) G row st =
     (if int row < subAreasPerRow G then
        (case colLoop (budget G) G row 0 st of
           None \<Rightarrow> None
         | Some (Inl e) \<Rightarrow> Some (Inl e)
         | Some (Inr st') \<Rightarrow>
             if real (shapeCount st') \<ge> target G then Some (Inr st')
             else rowLoop fuel G (Suc row) st')
      else Some (Inr st))"

text \<open>
  \<open>generateStressTestShapes\<close> with \<open>fuel\<close> for every loop and \<open>rnd\<close> for
  \<open>Math.random\<close>: \<open>None\<close> when a loop has not ended within its fuel, else the error
  thrown or the list returned.
\<close>

definition generateStressTestShapes ::
  "nat \<Rightarrow> (nat \<Rightarrow> real) \<Rightarrow> StressTestConfig \<Rightarrow> (error + CShape list) option" where
  "generateStressTestShapes fuel rnd config =
     (let perRow = \<lceil>areaWidth config / subAreaSize\<rceil>;
          perCol = \<lceil>areaHeight config / subAreaSize\<rceil>;
          totalSubAreas = perRow * perCol;
          blocks = js_max (Num 3)
                     (js_floor (js_sqrt (js_div (js_div (Num (targetShapeCount config))
                                                   (Num (of_int totalSubAreas))) (Num 50))));
          laterals = js_ceil (js_div (Num (targetShapeCount config))
                                (js_mul (Num (of_int totalSubAreas)) blocks));
          G = \<lparr>budget = fuel, random = rnd, target = targetShapeCount config,
               originX = (case baseX config of Some v \<Rightarrow> v | None \<Rightarrow> 611000),
               originY = (case baseY config of Some v \<Rightarrow> v | None \<Rightarrow> 4205000),
               subAreasPerRow = perRow, subAreasPerCol = perCol,
               blocksPerSubArea = blocks, lateralsPerBlock = laterals\<rparr>
      in map_option (map_sum id gen_shapes)
           (rowLoop fuel G 0 \<lparr>gen_shapes = [], shapeCount = 0, subAreaIndex = 0, randomCalls = 0\<rparr>))"

subsection \<open>A viewport that covers the world\<close>

fun vertices :: "real Geometry \<Rightarrow> Coordinate list" where
  "vertices (Polygon cs) = cs"
| "vertices (Line ps) = ps"
| "vertices (Point c r) = [c]"

definition inside :: "ViewportBounds \<Rightarrow> Coordinate \<Rightarrow> bool" where
  "inside v c \<longleftrightarrow>
     vp_x v \<le> fst c \<and> fst c \<le> vp_x v + vp_width v \<and>
     vp_y v \<le> snd c \<and> snd c \<le> vp_y v + vp_height v"

definition covers :: "ViewportBounds \<Rightarrow> CShape list \<Rightarrow> bool" where
  "covers v ss \<longleftrightarrow> list_all (\<lambda>s. list_all (inside v) (vertices (geometry s))) ss"

text \<open>The canvas loads a list: every shape is added, then the index is built.\<close>

definition loadShapes :: "CShape list \<Rightarrow> ShapeManager \<Rightarrow> ShapeManager" where
  "loadShapes ss m = buildSpatialIndex (foldl (\<lambda>acc s. fst (addShape s acc)) m ss)"

text \<open>The generator's configuration and random values of the example, and a viewport around its sub-area.\<close>

definition config_one :: StressTestConfig where
  "config_one = \<lparr>targetShapeCount = 1, areaWidth = 50000, areaHeight = 50000,
                 baseX = Some 0, baseY = Some 0\<rparr>"

definition rnd_half :: "nat \<Rightarrow> real" where
  "rnd_half i = 0.5"

definition view_world :: ViewportBounds where
  "view_world = \<lparr>vp_x = -100, vp_y = -1600, vp_width = 1700, vp_height = 1700\<rparr>"


text \<open>The bounding box holds every vertex it was extended by.\<close>

definition boxed :: "BBox \<Rightarrow> Coordinate \<Rightarrow> bool" where
  "boxed b c \<longleftrightarrow>
     js_le (minX b) (Num (fst c)) \<and> js_le (Num (fst c)) (maxX b) \<and>
     js_le (minY b) (Num (snd c)) \<and> js_le (Num (snd c)) (maxY b)"

definition no_nan :: "BBox \<Rightarrow> bool" where
  "no_nan b \<longleftrightarrow> minX b \<noteq> NaN \<and> maxX b \<noteq> NaN \<and> minY b \<noteq> NaN \<and> maxY b \<noteq> NaN"



section \<open>Properties\<close>

subsection \<open>Maps and the parts of a cull pass\<close>

lemma map_get_set: "map_get (map_set k v m) k' = (if k' = k then Some v else map_get m k')"
  by (simp add: map_get_def map_set_def update_conv')


lemma sqrt_gt_8: "sqrt x > 8 \<longleftrightarrow> x > 64"
proof -
  have "sqrt 64 = 8" using real_sqrt_abs[of 8] by simp
  then show ?thesis using real_sqrt_less_iff[of 64 x] by simp
qed

lemma sqrt_gt_3: "sqrt x > 3 \<longleftrightarrow> x > 9"
proof -
  have "sqrt 9 = 3" using real_sqrt_abs[of 3] by simp
  then show ?thesis using real_sqrt_less_iff[of 9 x] by simp
qed

lemma lodLevel_area:
  "lodLevel v =
     (if vp_width v * vp_height v / BASE_AREA > 64 then 2
      else if vp_width v * vp_height v / BASE_AREA > 9 then 1 else 0)"
  by (auto simp: lodLevel_def zoomOutFactor_def LOD_LOW_THRESHOLD_def LOD_MEDIUM_THRESHOLD_def
      sqrt_gt_8 sqrt_gt_3)

lemma cullStep_shape:
  "cullStep ids lod k sd acc = (sd', acc') \<Longrightarrow> shape sd' = shape sd \<and> graphics sd' = graphics sd"
  by (auto simp: cullStep_def Let_def split: if_splits)

lemma cullStep_inScene:
  "cullStep ids lod k sd acc = (sd', acc') \<Longrightarrow>
   inScene sd' \<longleftrightarrow> (k \<in> set ids \<and> \<not> (lod \<ge> 1 \<and> is_line (geometry (shape sd))))"
  by (auto simp: cullStep_def Let_def split: if_splits)

text \<open>After the loop, an entry is in the scene iff it is a candidate that the LOD keeps.\<close>

lemma cullLoop_settled:
  "cullLoop ids lod ss acc = (ss', acc') \<Longrightarrow> (k, sd') \<in> set ss' \<Longrightarrow>
   inScene sd' \<longleftrightarrow> (k \<in> set ids \<and> \<not> (lod \<ge> 1 \<and> is_line (geometry (shape sd'))))"
proof (induction ss arbitrary: acc ss' acc')
  case Nil
  then show ?case by simp
next
  case (Cons p ss)
  obtain k0 sd0 where p: "p = (k0, sd0)" by (cases p)
  obtain sd1 acc1 where st: "cullStep ids lod k0 sd0 acc = (sd1, acc1)"
    by (cases "cullStep ids lod k0 sd0 acc")
  obtain r1 acc2 where lp: "cullLoop ids lod ss acc1 = (r1, acc2)"
    by (cases "cullLoop ids lod ss acc1")
  from Cons.prems(1) p st lp have ss': "ss' = (k0, sd1) # r1" by simp
  show ?case
  proof (cases "(k, sd') = (k0, sd1)")
    case True
    then show ?thesis using cullStep_inScene[OF st] cullStep_shape[OF st] by simp
  next
    case False
    then have "(k, sd') \<in> set r1" using Cons.prems(2) ss' by auto
    then show ?thesis using Cons.IH[OF lp] by simp
  qed
qed

text \<open>On entries that are already so, the loop attaches and detaches nothing.\<close>

lemma cullLoop_fixed:
  "\<forall>(k, sd) \<in> set ss.
      inScene sd \<longleftrightarrow> (k \<in> set ids \<and> \<not> (lod \<ge> 1 \<and> is_line (geometry (shape sd)))) \<Longrightarrow>
   cullLoop ids lod ss acc = (ss', acc') \<Longrightarrow>
   ss' = ss \<and> addedCount acc' = addedCount acc \<and> removedCount acc' = removedCount acc \<and>
   acc_children acc' = acc_children acc \<and> acc_inScene acc' = acc_inScene acc"
proof (induction ss arbitrary: acc ss' acc')
  case Nil
  then show ?case by simp
next
  case (Cons p ss)
  obtain k0 sd0 where p: "p = (k0, sd0)" by (cases p)
  obtain sd1 acc1 where st: "cullStep ids lod k0 sd0 acc = (sd1, acc1)"
    by (cases "cullStep ids lod k0 sd0 acc")
  obtain r1 acc2 where lp: "cullLoop ids lod ss acc1 = (r1, acc2)"
    by (cases "cullLoop ids lod ss acc1")
  from Cons.prems(2) p st lp have ss': "ss' = (k0, sd1) # r1" and a: "acc' = acc2" by simp_all
  from Cons.prems(1) p
  have h0: "inScene sd0 \<longleftrightarrow> (k0 \<in> set ids \<and> \<not> (lod \<ge> 1 \<and> is_line (geometry (shape sd0))))"
    by simp
  from st h0
  have s1: "sd1 = sd0 \<and> addedCount acc1 = addedCount acc \<and> removedCount acc1 = removedCount acc \<and>
            acc_children acc1 = acc_children acc \<and> acc_inScene acc1 = acc_inScene acc"
    by (auto simp: cullStep_def Let_def split: if_splits)
  from Cons.prems(1)
  have "\<forall>(k, sd) \<in> set ss.
          inScene sd \<longleftrightarrow> (k \<in> set ids \<and> \<not> (lod \<ge> 1 \<and> is_line (geometry (shape sd))))"
    by simp
  from Cons.IH[OF this lp] s1 ss' a p show ?case by simp
qed

lemma ensureIndex_fields:
  "shapes (ensureIndex m) = shapes m" "shapesContainer (ensureIndex m) = shapesContainer m"
  "shapesInScene (ensureIndex m) = shapesInScene m" "nextGid (ensureIndex m) = nextGid m"
  "spatialIndex (ensureIndex m) \<noteq> None"
  by (simp_all add: ensureIndex_def buildSpatialIndex_def)

lemma ensureIndex_idem: "spatialIndex m \<noteq> None \<Longrightarrow> ensureIndex m = m"
  by (auto simp: ensureIndex_def)

lemma cullShapes_parts:
  assumes "cullLoop (potentiallyVisibleIds v (ensureIndex m)) (lodLevel v) (shapes m)
             \<lparr>visibleCount = 0, addedCount = 0, removedCount = 0, skippedByLOD = 0,
              acc_children = shapesContainer m, acc_inScene = shapesInScene m\<rparr> = (ss', acc)"
  shows "shapes (fst (cullShapes v m)) = ss'"
    and "shapesContainer (fst (cullShapes v m)) = acc_children acc"
    and "spatialIndex (fst (cullShapes v m)) = spatialIndex (ensureIndex m)"
    and "detail_added (snd (cullShapes v m)) = addedCount acc"
    and "detail_removed (snd (cullShapes v m)) = removedCount acc"
    and "detail_count (snd (cullShapes v m)) = visibleCount acc"
    and "detail_total (snd (cullShapes v m)) = length ss'"
    and "nextGid (fst (cullShapes v m)) = nextGid m"
  using assms by (simp_all add: cullShapes_def cullPass_def Let_def ensureIndex_fields)

subsection \<open>Evaluating the example stores\<close>

lemmas manager_defs =
  selectShape_def addSelected_def clearPrevious_def addShape_def newShapeManager_def
  map_set_def map_get_def map_delete_def set_add_def set_delete_def updateShapeVisuals_def
  clearResizeHandles_def createResizeHandles_def enableResize_def notifySelection_def
  createPolygon_def createLine_def createPoint_def redraw_def newHandle_def Let_def
  enumerate_eq_zip upt_rec removeShape_def clear_def removeChild_def addChild_def
  buildSpatialIndex_def indexItem_def emptyBounds_def extendBounds_def BBox.extend_def
  no_style_def directions_def

lemma store_a_eval:
  "store_a =
     \<lparr>shapesContainer = [],
      shapes = [(''a'', \<lparr>graphics = \<lparr>gid = 0, visual = Drawn False\<rparr>, shape = poly_a, inScene = False\<rparr>)],
      labels = [], selectedShapes = [], shapesInScene = [],
      selectionChangedCallback = False, selectionNotified = [], resizeHandles = [],
      isDragging = False, dragOffset = (0, 0), isResizing = False, resizeHandleIndex = -1,
      activeShapeId = None,
      spatialIndex = Some [\<lparr>minX = Num 0, minY = Num 0, maxX = Num 10, maxY = Num 10, item_id = ''a''\<rparr>],
      nextGid = 1, toLocal = id, windowDefined = True, dispatched = []\<rparr>"
  by (simp add: store_a_def manager_defs poly_a_def)


lemma view_medium_lod: "lodLevel view_medium = 1"
  by (simp add: lodLevel_area view_medium_def BASE_AREA_def)

lemma view_medium_buffered:
  "bufferedBounds view_medium =
     \<lparr>minX = Num (-9000), minY = Num (-9000), maxX = Num 9000, maxY = Num 9000\<rparr>"
  by (simp add: bufferedBounds_def view_medium_def BUFFER_PERCENT_def)

lemma selected_a_eval:
  "selected_a = store_a
     \<lparr>selectedShapes := [''a''],
      shapes := [(''a'', \<lparr>graphics = \<lparr>gid = 0, visual = Drawn True\<rparr>, shape = poly_a, inScene = False\<rparr>)],
      resizeHandles := [(newHandle ''a'' 0 (0, 0))\<lparr>resize_enabled := True\<rparr>,
                        (newHandle ''a'' 1 (10, 0))\<lparr>resize_enabled := True\<rparr>,
                        (newHandle ''a'' 2 (10, 10))\<lparr>resize_enabled := True\<rparr>]\<rparr>"
  by (simp add: selected_a_def store_a_eval manager_defs poly_a_def)

lemma ids_a: "potentiallyVisibleIds view_medium selected_a = [''a'']"
  by (simp add: potentiallyVisibleIds_def selected_a_eval store_a_eval view_medium_buffered
      rbush_search_def intersects_def)

lemma attached_a_eval:
  "attached_a = selected_a
     \<lparr>shapes := [(''a'', \<lparr>graphics = \<lparr>gid = 0, visual = Drawn True\<rparr>, shape = poly_a, inScene = True\<rparr>)],
      shapesContainer := [0], shapesInScene := [''a''],
      dispatched := [\<lparr>detail_count = 1, detail_total = 1, detail_checked = 1, detail_added = 1,
                      detail_removed = 0, detail_inScene = 1, detail_skippedByLOD = 0,
                      detail_lodLevel = 1\<rparr>]\<rparr>"
proof -
  have e: "ensureIndex selected_a = selected_a"
    by (simp add: ensureIndex_def selected_a_eval store_a_eval)
  show ?thesis
    unfolding attached_a_def cullShapes_def e cullPass_def ids_a view_medium_lod
    by (simp add: selected_a_eval store_a_eval cullStep_def poly_a_def Let_def addChild_def
        set_add_def cullLabels_def cullHandles_def map_get_def newHandle_def)
qed

lemma stale_drag_eval:
  "stale_drag = attached_a
     \<lparr>shapes := [], shapesContainer := [], isDragging := True, activeShapeId := Some ''a'',
      dragOffset := (1, 1)\<rparr>"
  by (simp add: stale_drag_def attached_a_eval selected_a_eval store_a_eval dragPointerDown_def
      isSelected_def after_def removeShape_def map_get_def map_delete_def removeChild_def
      poly_a_def Let_def)


subsection \<open>Level of detail\<close>

text \<open>
  C6. For every viewport, \<open>cullShapes\<close> takes \<open>zoomOutFactor\<close> as the square root of
  the viewport's width times its height over the reference area of 2000 by 2000 (a
  real square root when that quotient is not negative), and the LOD level is 0, 1 or 2:
  it is 2 exactly when the factor is above the low threshold, 1 exactly when it is
  above the medium threshold and not above the low one, and 0 otherwise.
\<close>

theorem lodLevel_thresholds:
  "zoomOutFactor v = js_sqrt (Num (vp_width v * vp_height v / BASE_AREA)) \<and>
   (vp_width v * vp_height v / BASE_AREA \<ge> 0 \<longrightarrow>
      zoomOutFactor v = Num (sqrt (vp_width v * vp_height v / BASE_AREA))) \<and>
   BASE_AREA = 4000000 \<and>
   lodLevel v \<in> {0, 1, 2} \<and>
   (lodLevel v = 1 \<longleftrightarrow>
      js_lt (Num LOD_MEDIUM_THRESHOLD) (zoomOutFactor v) \<and>
      js_le (zoomOutFactor v) (Num LOD_LOW_THRESHOLD)) \<and>
   (lodLevel v = 2 \<longleftrightarrow> js_lt (Num LOD_LOW_THRESHOLD) (zoomOutFactor v)) \<and>
   (lodLevel v = 0 \<longleftrightarrow> \<not> js_lt (Num LOD_MEDIUM_THRESHOLD) (zoomOutFactor v))"
proof -
  have "zoomOutFactor v = NaN \<or> (\<exists>r. zoomOutFactor v = Num r)"
    by (simp add: zoomOutFactor_def)
  then show ?thesis
    by (auto simp: lodLevel_def zoomOutFactor_def LOD_MEDIUM_THRESHOLD_def LOD_LOW_THRESHOLD_def
        BASE_AREA_def split: if_splits)
qed

theorem lodLevel_thresholds_witness:
  "vp_width view_medium * vp_height view_medium / BASE_AREA \<ge> 0 \<and>
   zoomOutFactor view_medium = Num (sqrt 25) \<and> lodLevel view_medium = 1"
proof -
  have a: "vp_width view_medium * vp_height view_medium / BASE_AREA = 25"
    by (simp add: view_medium_def BASE_AREA_def)
  from lodLevel_thresholds[of view_medium] a view_medium_lod show ?thesis by simp
qed

subsection \<open>Culling\<close>



text \<open>
  C2. For every viewport and every state of the manager, a second \<open>cullShapes\<close> with
  the same viewport right after the first (nothing added, removed, moved or re-indexed
  in between) attaches nothing and detaches nothing: its \<open>added\<close> and \<open>removed\<close>
  counters are 0, and the entries (so every \<open>inScene\<close> flag) and the children of the
  shapes container are as the first call left them.
\<close>

theorem cullShapes_idempotent:
  "detail_added (snd (cullShapes v (fst (cullShapes v m)))) = 0 \<and>
   detail_removed (snd (cullShapes v (fst (cullShapes v m)))) = 0 \<and>
   shapes (fst (cullShapes v (fst (cullShapes v m)))) = shapes (fst (cullShapes v m)) \<and>
   shapesContainer (fst (cullShapes v (fst (cullShapes v m)))) =
     shapesContainer (fst (cullShapes v m))"
proof -
  define m1 where "m1 = fst (cullShapes v m)"
  obtain ss' acc where
    lp: "cullLoop (potentiallyVisibleIds v (ensureIndex m)) (lodLevel v) (shapes m)
           \<lparr>visibleCount = 0, addedCount = 0, removedCount = 0, skippedByLOD = 0,
            acc_children = shapesContainer m, acc_inScene = shapesInScene m\<rparr> = (ss', acc)"
    by (cases "cullLoop (potentiallyVisibleIds v (ensureIndex m)) (lodLevel v) (shapes m)
           \<lparr>visibleCount = 0, addedCount = 0, removedCount = 0, skippedByLOD = 0,
            acc_children = shapesContainer m, acc_inScene = shapesInScene m\<rparr>")
  have sh: "shapes m1 = ss'" and ix: "spatialIndex m1 = spatialIndex (ensureIndex m)"
    using cullShapes_parts[OF lp] by (simp_all add: m1_def)
  have "ensureIndex m1 = m1"
    using ix ensureIndex_fields(5)[of m] by (simp add: ensureIndex_idem)
  then have ids: "potentiallyVisibleIds v (ensureIndex m1) = potentiallyVisibleIds v (ensureIndex m)"
    using ix by (simp add: potentiallyVisibleIds_def)
  have settled: "\<forall>(k, sd) \<in> set (shapes m1).
      inScene sd \<longleftrightarrow> (k \<in> set (potentiallyVisibleIds v (ensureIndex m1)) \<and>
                        \<not> (lodLevel v \<ge> 1 \<and> is_line (geometry (shape sd))))"
    using cullLoop_settled[OF lp] sh ids by auto
  obtain ss2 acc2 where
    lp2: "cullLoop (potentiallyVisibleIds v (ensureIndex m1)) (lodLevel v) (shapes m1)
            \<lparr>visibleCount = 0, addedCount = 0, removedCount = 0, skippedByLOD = 0,
             acc_children = shapesContainer m1, acc_inScene = shapesInScene m1\<rparr> = (ss2, acc2)"
    by (cases "cullLoop (potentiallyVisibleIds v (ensureIndex m1)) (lodLevel v) (shapes m1)
            \<lparr>visibleCount = 0, addedCount = 0, removedCount = 0, skippedByLOD = 0,
             acc_children = shapesContainer m1, acc_inScene = shapesInScene m1\<rparr>")
  from cullLoop_fixed[OF settled lp2]
  have fx: "ss2 = shapes m1" "addedCount acc2 = 0" "removedCount acc2 = 0"
    "acc_children acc2 = shapesContainer m1"
    by simp_all
  show ?thesis using cullShapes_parts[OF lp2] fx unfolding m1_def[symmetric] by simp
qed

subsection \<open>Removal and the resize handles\<close>



subsection \<open>Gestures\<close>



text \<open>
  C9. When a drag or a resize is going on and the shape it refers to is no longer in
  the store, a pointer move returns without an error and leaves the manager as it was
  (no geometry changed, nothing attached or detached), and a pointer up leaves the
  store and the scene as they were and puts the gesture state back to idle.
\<close>

theorem stale_gesture_noop:
  assumes "isDragging m \<or> isResizing m" and "activeShapeId m = Some k"
    and "map_get (shapes m) k = None"
  shows "handlePointerMove pos m = Inr m \<and>
         shapes (handlePointerUp m) = shapes m \<and>
         shapesContainer (handlePointerUp m) = shapesContainer m \<and>
         \<not> isDragging (handlePointerUp m) \<and> \<not> isResizing (handlePointerUp m) \<and>
         activeShapeId (handlePointerUp m) = None \<and> resizeHandleIndex (handlePointerUp m) = -1"
  using assms by (simp add: handlePointerMove_def handlePointerUp_def)

theorem stale_gesture_noop_witness:
  "isDragging stale_drag \<and> activeShapeId stale_drag = Some ''a'' \<and>
   map_get (shapes stale_drag) ''a'' = None \<and>
   handlePointerMove (5, 5) stale_drag = Inr stale_drag \<and>
   \<not> isDragging (handlePointerUp stale_drag) \<and> activeShapeId (handlePointerUp stale_drag) = None"
proof -
  have h: "isDragging stale_drag \<or> isResizing stale_drag" "activeShapeId stale_drag = Some ''a''"
    "map_get (shapes stale_drag) ''a'' = None"
    by (simp_all add: stale_drag_eval map_get_def)
  have d: "isDragging stale_drag" by (simp add: stale_drag_eval)
  from stale_gesture_noop[OF h, of "(5, 5)"] h d show ?thesis by simp
qed

subsection \<open>Selection\<close>

lemma updateShapeVisuals_get:
  "map_get (shapes (updateShapeVisuals k sel m)) k' =
     (if k' = k
      then map_option (\<lambda>sd. sd\<lparr>graphics := (graphics sd)\<lparr>visual := redraw (shape sd) sel\<rparr>\<rparr>)
             (map_get (shapes m) k)
      else map_get (shapes m) k')"
  by (simp add: updateShapeVisuals_def map_get_set split: option.splits)

lemma updateShapeVisuals_selected:
  "selectedShapes (updateShapeVisuals k sel m) = selectedShapes m"
  by (simp add: updateShapeVisuals_def split: option.splits)

lemma updateShapeVisuals_shapes_cong:
  "shapes m = shapes m' \<Longrightarrow> shapes (updateShapeVisuals k sel m) = shapes (updateShapeVisuals k sel m')"
  by (simp add: updateShapeVisuals_def split: option.splits)

text \<open>Redrawing keeps the shape record of every entry.\<close>

lemma updateShapeVisuals_shape:
  "map_option shape (map_get (shapes (updateShapeVisuals a sel m)) k) =
   map_option shape (map_get (shapes m) k)"
  by (cases "map_get (shapes m) a") (auto simp: updateShapeVisuals_get)

lemma unhighlight_all_shape:
  "map_option shape (map_get (shapes (foldl (\<lambda>acc s. updateShapeVisuals s False acc) m ks)) k) =
   map_option shape (map_get (shapes m) k)"
proof (induction ks arbitrary: m)
  case Nil
  then show ?case by simp
next
  case (Cons a ks)
  have "map_option shape (map_get (shapes (updateShapeVisuals a False m)) k) =
        map_option shape (map_get (shapes m) k)"
    by (rule updateShapeVisuals_shape)
  with Cons.IH[of "updateShapeVisuals a False m"] show ?case by simp
qed

lemma clearPrevious_fields:
  "selectedShapes (clearPrevious m) = []"
  "shapes (clearPrevious m) = shapes (foldl (\<lambda>acc s. updateShapeVisuals s False acc) m (selectedShapes m))"
  by (simp_all add: clearPrevious_def clearResizeHandles_def)

lemma addSelected_fields:
  "selectedShapes (addSelected k m) = set_add k (selectedShapes m)"
  "shapes (addSelected k m) = shapes (updateShapeVisuals k True m)"
proof -
  have a: "shapes (updateShapeVisuals k True (m\<lparr>selectedShapes := set_add k (selectedShapes m)\<rparr>)) =
        shapes (updateShapeVisuals k True m)"
    by (rule updateShapeVisuals_shapes_cong) simp
  have b: "\<And>x. shapes (createResizeHandles k x) = shapes x" "\<And>x. selectedShapes (createResizeHandles k x) = selectedShapes x"
    by (simp_all add: createResizeHandles_def clearResizeHandles_def Let_def split: option.splits Geometry.splits)
  show "selectedShapes (addSelected k m) = set_add k (selectedShapes m)"
    by (simp add: addSelected_def Let_def notifySelection_def enableResize_def clearResizeHandles_def b
        updateShapeVisuals_selected)
  show "shapes (addSelected k m) = shapes (updateShapeVisuals k True m)"
    by (simp add: addSelected_def Let_def notifySelection_def enableResize_def clearResizeHandles_def b a)
qed

text \<open>
  C5. For two different ids \<open>a\<close> and \<open>b\<close> in the store, \<open>selectShape a\<close> and then
  \<open>selectShape b\<close>, both without multi-selection, leave the selection as exactly \<open>b\<close>.
  The second call is \<open>addSelected b\<close> after \<open>clearPrevious\<close>: in the state between
  the two the selection is empty and \<open>a\<close> has been redrawn without highlight, before
  \<open>b\<close> enters the set and is redrawn with highlight; at the end \<open>a\<close> shows no
  highlight and \<open>b\<close> shows what its highlighted drawing gives.
\<close>

theorem select_exclusive:
  assumes "a \<noteq> b" and "map_get (shapes m) a = Some sda" and "map_get (shapes m) b = Some sdb"
  shows "selectedShapes (selectShape a False m) = [a] \<and>
         selectedShapes (clearPrevious (selectShape a False m)) = [] \<and>
         map_option (visual \<circ> graphics) (map_get (shapes (clearPrevious (selectShape a False m))) a) =
           Some (redraw (shape sda) False) \<and>
         selectShape b False (selectShape a False m) = addSelected b (clearPrevious (selectShape a False m)) \<and>
         selectedShapes (selectShape b False (selectShape a False m)) = [b] \<and>
         map_option (visual \<circ> graphics) (map_get (shapes (selectShape b False (selectShape a False m))) a) =
           Some (redraw (shape sda) False) \<and>
         redraw (shape sda) False \<noteq> Drawn True \<and>
         map_option (visual \<circ> graphics) (map_get (shapes (selectShape b False (selectShape a False m))) b) =
           Some (redraw (shape sdb) True)"
proof -
  define m1 where "m1 = selectShape a False m"
  define mid where "mid = clearPrevious m1"
  define m2 where "m2 = selectShape b False m1"
  have sel1: "selectedShapes m1 = [a]"
    by (simp add: m1_def selectShape_def addSelected_fields clearPrevious_fields set_add_def)
  have sh_m1: "map_option shape (map_get (shapes m1) k) = map_option shape (map_get (shapes m) k)" for k
  proof -
    have "map_option shape (map_get (shapes m1) k) =
          map_option shape (map_get (shapes (clearPrevious m)) k)"
      by (simp add: m1_def selectShape_def addSelected_fields updateShapeVisuals_shape)
    then show ?thesis by (simp add: clearPrevious_fields unhighlight_all_shape)
  qed
  from sh_m1[of a] assms(2) obtain sda1 where a1: "map_get (shapes m1) a = Some sda1" "shape sda1 = shape sda"
    by auto
  from sh_m1[of b] assms(3) obtain sdb1 where b1: "map_get (shapes m1) b = Some sdb1" "shape sdb1 = shape sdb"
    by auto
  have mid_sh: "shapes mid = shapes (updateShapeVisuals a False m1)"
    by (simp add: mid_def clearPrevious_fields sel1)
  have mid_sel: "selectedShapes mid = []" by (simp add: mid_def clearPrevious_fields)
  have mid_a: "map_option (visual \<circ> graphics) (map_get (shapes mid) a) = Some (redraw (shape sda) False)"
    by (simp add: mid_sh updateShapeVisuals_get a1)
  have mid_b: "map_get (shapes mid) b = Some sdb1"
    using assms(1) by (simp add: mid_sh updateShapeVisuals_get b1)
  have m2_eq: "m2 = addSelected b mid" by (simp add: m2_def mid_def selectShape_def)
  have m2_sel: "selectedShapes m2 = [b]" by (simp add: m2_eq addSelected_fields mid_sel set_add_def)
  have m2_a: "map_option (visual \<circ> graphics) (map_get (shapes m2) a) = Some (redraw (shape sda) False)"
    using assms(1) mid_a by (simp add: m2_eq addSelected_fields updateShapeVisuals_get)
  have m2_b: "map_option (visual \<circ> graphics) (map_get (shapes m2) b) = Some (redraw (shape sdb) True)"
    by (simp add: m2_eq addSelected_fields updateShapeVisuals_get mid_b b1)
  have nh: "redraw (shape sda) False \<noteq> Drawn True"
    by (simp add: redraw_def split: Geometry.splits)
  show ?thesis
    using sel1 mid_sel mid_a m2_eq m2_sel m2_a m2_b nh
    unfolding m1_def mid_def m2_def by simp
qed

theorem select_exclusive_witness:
  "''a'' \<noteq> ''p'' \<and>
   map_get (shapes store_ap) ''a'' =
     Some \<lparr>graphics = \<lparr>gid = 0, visual = Drawn False\<rparr>, shape = poly_a, inScene = False\<rparr> \<and>
   map_get (shapes store_ap) ''p'' =
     Some \<lparr>graphics = \<lparr>gid = 1, visual = Drawn False\<rparr>, shape = point_p, inScene = False\<rparr> \<and>
   selectedShapes (selectShape ''p'' False (selectShape ''a'' False store_ap)) = [''p''] \<and>
   map_option (visual \<circ> graphics)
     (map_get (shapes (selectShape ''p'' False (selectShape ''a'' False store_ap))) ''a'') =
     Some (Drawn False) \<and>
   map_option (visual \<circ> graphics)
     (map_get (shapes (selectShape ''p'' False (selectShape ''a'' False store_ap))) ''p'') =
     Some (Drawn True)"
proof -
  have h: "''a'' \<noteq> ''p''"
    "map_get (shapes store_ap) ''a'' =
       Some \<lparr>graphics = \<lparr>gid = 0, visual = Drawn False\<rparr>, shape = poly_a, inScene = False\<rparr>"
    "map_get (shapes store_ap) ''p'' =
       Some \<lparr>graphics = \<lparr>gid = 1, visual = Drawn False\<rparr>, shape = point_p, inScene = False\<rparr>"
    by (simp_all add: store_ap_def manager_defs poly_a_def point_p_def)
  have r: "redraw poly_a False = Drawn False" "redraw point_p True = Drawn True"
    by (simp_all add: redraw_def poly_a_def point_p_def)
  note t = select_exclusive[OF h, unfolded ShapeData.select_convs r]
  have s: "selectedShapes (selectShape ''p'' False (selectShape ''a'' False store_ap)) = [''p'']"
    using t by blast
  have va: "map_option (visual \<circ> graphics)
     (map_get (shapes (selectShape ''p'' False (selectShape ''a'' False store_ap))) ''a'') =
     Some (Drawn False)"
    using t by blast
  have vp: "map_option (visual \<circ> graphics)
     (map_get (shapes (selectShape ''p'' False (selectShape ''a'' False store_ap))) ''p'') =
     Some (Drawn True)"
    using t by blast
  show ?thesis using h s va vp by (intro conjI)
qed

subsection \<open>The scene invariant\<close>

lemma store_inv_inv3: "store_inv m \<longleftrightarrow> inv3 (shapes m) (shapesContainer m) (nextGid m)"
  by (simp add: store_inv_def inv3_def)

text \<open>Replacing the entry of a key by one with the same graphics identity and flag.\<close>

lemma update_same_binding:
  assumes "map_of ss k = Some sd" and "gid (graphics sd') = gid (graphics sd)" and "inScene sd' = inScene sd"
  shows "map entry_gid (AList.update k sd' ss) = map entry_gid ss"
    and "\<forall>e \<in> set (AList.update k sd' ss). \<exists>e0 \<in> set ss. entry_gid e = entry_gid e0 \<and> inScene (snd e) = inScene (snd e0)"
  using assms
  by (induction ss) (auto simp: entry_gid_def split: if_splits)

lemma inv3_update_same:
  assumes "inv3 ss cs n" and "map_of ss k = Some sd" and "gid (graphics sd') = gid (graphics sd)"
    and "inScene sd' = inScene sd"
  shows "inv3 (AList.update k sd' ss) cs n"
proof -
  note u = update_same_binding[OF assms(2,3,4)]
  have "\<forall>e \<in> set (AList.update k sd' ss). attached_iff cs e \<and> entry_gid e < n"
  proof
    fix e assume "e \<in> set (AList.update k sd' ss)"
    with u(2) obtain e0 where "e0 \<in> set ss" "entry_gid e = entry_gid e0" "inScene (snd e) = inScene (snd e0)"
      by blast
    with assms(1) show "attached_iff cs e \<and> entry_gid e < n"
      by (auto simp: inv3_def attached_iff_def)
  qed
  with assms(1) u(1) show ?thesis by (simp add: inv3_def)
qed

lemma set_update_subset: "set (AList.update k v ss) \<subseteq> insert (k, v) (set ss)"
  by (induction ss) auto

lemma inv3_update_fresh:
  assumes "inv3 ss cs n" and "gid (graphics sd') = n" and "\<not> inScene sd'"
  shows "inv3 (AList.update k sd' ss) cs (Suc n)"
proof -
  have a: "set (AList.update k sd' ss) \<subseteq> insert (k, sd') (set ss)"
    by (induction ss) auto
  have b: "set (map entry_gid (AList.update k sd' ss)) \<subseteq> insert n (set (map entry_gid ss))"
    using a assms(2) by (auto simp: entry_gid_def)
  have d: "distinct (map entry_gid (AList.update k sd' ss))"
    using assms(1,2)
  proof (induction ss)
    case Nil
    then show ?case by simp
  next
    case (Cons p ss)
    have i: "inv3 ss cs n" using Cons.prems(1) by (auto simp: inv3_def)
    have fresh: "n \<notin> set (map entry_gid (p # ss))" using Cons.prems(1) by (auto simp: inv3_def)
    have sub: "set (map entry_gid (AList.update k sd' ss)) \<subseteq> insert n (set (map entry_gid ss))"
    proof -
      have "set (AList.update k sd' ss) \<subseteq> insert (k, sd') (set ss)" by (induction ss) auto
      then show ?thesis using Cons.prems(2) by (auto simp: entry_gid_def)
    qed
    have en: "entry_gid (k, sd') = n" using Cons.prems(2) by (simp add: entry_gid_def)
    show ?case
    proof (cases "fst p = k")
      case True
      then show ?thesis using Cons.prems(1) fresh en by (simp add: inv3_def)
    next
      case False
      have "entry_gid p \<notin> set (map entry_gid (AList.update k sd' ss))"
        using sub fresh Cons.prems(1) by (auto simp: inv3_def)
      then show ?thesis using False Cons.IH[OF i Cons.prems(2)] by simp
    qed
  qed
  have nin: "n \<notin> set cs" using assms(1) by (auto simp: inv3_def)
  have "\<forall>e \<in> set (AList.update k sd' ss). attached_iff cs e \<and> entry_gid e < Suc n"
  proof
    fix e assume "e \<in> set (AList.update k sd' ss)"
    with a have "e = (k, sd') \<or> e \<in> set ss" by auto
    then show "attached_iff cs e \<and> entry_gid e < Suc n"
      using assms nin by (auto simp: inv3_def attached_iff_def entry_gid_def less_Suc_eq)
  qed
  with d assms(1) show ?thesis by (auto simp: inv3_def less_Suc_eq)
qed

lemma inv3_delete:
  assumes "inv3 ss cs n" and "map_of ss k = Some sd"
  shows "inv3 (AList.delete k ss) (remove1 (gid (graphics sd)) cs) n"
proof -
  have mem: "(k, sd) \<in> set ss" using assms(2) by (rule map_of_SomeD)
  have sub: "set (AList.delete k ss) \<subseteq> set ss" by (auto simp: AList.delete_eq)
  have d: "distinct (map entry_gid (AList.delete k ss))"
    using assms(1) by (simp add: inv3_def AList.delete_eq distinct_map_filter)
  have other: "entry_gid e \<noteq> gid (graphics sd)" if "e \<in> set (AList.delete k ss)" for e
  proof -
    from that have e: "e \<in> set ss" "fst e \<noteq> k" by (auto simp: AList.delete_eq)
    have "inj_on entry_gid (set ss)" using assms(1) by (simp add: inv3_def distinct_map)
    with e(1) mem have "entry_gid e = entry_gid (k, sd) \<Longrightarrow> e = (k, sd)" by (auto dest: inj_onD)
    with e(2) show ?thesis by (auto simp: entry_gid_def)
  qed
  have "\<forall>e \<in> set (AList.delete k ss). attached_iff (remove1 (gid (graphics sd)) cs) e \<and> entry_gid e < n"
  proof
    fix e assume e: "e \<in> set (AList.delete k ss)"
    with sub have "e \<in> set ss" by auto
    with assms(1) other[OF e] show "attached_iff (remove1 (gid (graphics sd)) cs) e \<and> entry_gid e < n"
      by (auto simp: inv3_def attached_iff_def)
  qed
  moreover have "distinct (remove1 (gid (graphics sd)) cs)" using assms(1) by (simp add: inv3_def)
  moreover have "\<forall>g \<in> set (remove1 (gid (graphics sd)) cs). g < n"
    using assms(1) by (auto simp: inv3_def dest: notin_set_remove1)
  ultimately show ?thesis using d by (simp add: inv3_def)
qed


lemma cullStep_children:
  assumes "cullStep ids lod k sd acc = (sd', acc')" and "distinct (acc_children acc)"
    and "inScene sd \<longleftrightarrow> gid (graphics sd) \<in> set (acc_children acc)"
  shows "distinct (acc_children acc')"
    and "inScene sd' \<longleftrightarrow> gid (graphics sd') \<in> set (acc_children acc')"
    and "gid (graphics sd') = gid (graphics sd)"
    and "\<And>g. g \<noteq> gid (graphics sd) \<Longrightarrow> g \<in> set (acc_children acc') \<longleftrightarrow> g \<in> set (acc_children acc)"
  using assms
  by (auto simp: cullStep_def Let_def removeChild_def addChild_def split: if_splits)

lemma cullLoop_inv:
  assumes "cullLoop ids lod ss acc = (ss', acc')"
    and "distinct (acc_children acc)" and "distinct (map entry_gid ss)"
    and "\<forall>e \<in> set ss. attached_iff (acc_children acc) e"
  shows "(\<forall>e \<in> set ss'. attached_iff (acc_children acc') e) \<and> distinct (acc_children acc') \<and>
         map entry_gid ss' = map entry_gid ss \<and>
         (\<forall>g. g \<notin> set (map entry_gid ss) \<longrightarrow> (g \<in> set (acc_children acc') \<longleftrightarrow> g \<in> set (acc_children acc)))"
  using assms
proof (induction ss arbitrary: acc ss' acc')
  case Nil
  then show ?case by simp
next
  case (Cons p ss)
  obtain k0 sd0 where p: "p = (k0, sd0)" by (cases p)
  obtain sd1 acc1 where st: "cullStep ids lod k0 sd0 acc = (sd1, acc1)"
    by (cases "cullStep ids lod k0 sd0 acc")
  obtain r1 acc2 where lp: "cullLoop ids lod ss acc1 = (r1, acc2)"
    by (cases "cullLoop ids lod ss acc1")
  from Cons.prems(1) p st lp have ss': "ss' = (k0, sd1) # r1" and a: "acc' = acc2" by simp_all
  have c0: "inScene sd0 \<longleftrightarrow> gid (graphics sd0) \<in> set (acc_children acc)"
    using Cons.prems(4) p by (simp add: attached_iff_def entry_gid_def)
  note s = cullStep_children[OF st Cons.prems(2) c0]
  have g0: "gid (graphics sd0) \<notin> set (map entry_gid ss)"
    using Cons.prems(3) p by (simp add: entry_gid_def)
  have rest: "\<forall>e \<in> set ss. attached_iff (acc_children acc1) e"
  proof
    fix e assume e: "e \<in> set ss"
    then have "entry_gid e \<noteq> gid (graphics sd0)" using g0 by (metis imageI set_map)
    with s(4) Cons.prems(4) e show "attached_iff (acc_children acc1) e"
      by (simp add: attached_iff_def)
  qed
  have dss: "distinct (map entry_gid ss)" using Cons.prems(3) by simp
  note ih = Cons.IH[OF lp s(1) dss rest]
  have first: "attached_iff (acc_children acc2) (k0, sd1)"
    using ih g0 s(2,3) by (simp add: attached_iff_def entry_gid_def)
  have others: "\<forall>g. g \<notin> set (map entry_gid (p # ss)) \<longrightarrow>
                  (g \<in> set (acc_children acc2) \<longleftrightarrow> g \<in> set (acc_children acc))"
    using ih s(4) p by (auto simp: entry_gid_def)
  show ?case using ih first others ss' a p s(3) by (simp add: entry_gid_def)
qed

lemma cullShapes_inv:
  assumes "store_inv m"
  shows "store_inv (fst (cullShapes v m))"
proof -
  obtain ss' acc where
    lp: "cullLoop (potentiallyVisibleIds v (ensureIndex m)) (lodLevel v) (shapes m)
           \<lparr>visibleCount = 0, addedCount = 0, removedCount = 0, skippedByLOD = 0,
            acc_children = shapesContainer m, acc_inScene = shapesInScene m\<rparr> = (ss', acc)"
    by (cases "cullLoop (potentiallyVisibleIds v (ensureIndex m)) (lodLevel v) (shapes m)
           \<lparr>visibleCount = 0, addedCount = 0, removedCount = 0, skippedByLOD = 0,
            acc_children = shapesContainer m, acc_inScene = shapesInScene m\<rparr>")
  note parts = cullShapes_parts[OF lp]
  from assms have i: "distinct (shapesContainer m)" "distinct (map entry_gid (shapes m))"
    "\<forall>e \<in> set (shapes m). attached_iff (shapesContainer m) e"
    "\<forall>e \<in> set (shapes m). entry_gid e < nextGid m" "\<forall>g \<in> set (shapesContainer m). g < nextGid m"
    by (simp_all add: store_inv_def)
  from cullLoop_inv[OF lp] i
  have r: "\<forall>e \<in> set ss'. attached_iff (acc_children acc) e" "distinct (acc_children acc)"
    "map entry_gid ss' = map entry_gid (shapes m)"
    "\<forall>g. g \<notin> set (map entry_gid (shapes m)) \<longrightarrow>
           (g \<in> set (acc_children acc) \<longleftrightarrow> g \<in> set (shapesContainer m))"
    by simp_all
  have lt1: "\<forall>e \<in> set ss'. entry_gid e < nextGid m"
  proof
    fix e assume "e \<in> set ss'"
    then have "entry_gid e \<in> set (map entry_gid ss')" by simp
    then have "entry_gid e \<in> set (map entry_gid (shapes m))" using r(3) by simp
    then show "entry_gid e < nextGid m" using i(4) by auto
  qed
  have lt2: "\<forall>g \<in> set (acc_children acc). g < nextGid m"
  proof
    fix g assume g: "g \<in> set (acc_children acc)"
    show "g < nextGid m"
    proof (cases "g \<in> set (map entry_gid (shapes m))")
      case True
      then show ?thesis using i(4) by auto
    next
      case False
      then show ?thesis using r(4) g i(5) by auto
    qed
  qed
  show ?thesis using parts(1,2,8) r lt1 lt2 i(2) by (simp add: store_inv_def)
qed

lemma updateShapeVisuals_inv: "store_inv m \<Longrightarrow> store_inv (updateShapeVisuals k sel m)"
  by (auto simp: updateShapeVisuals_def store_inv_inv3 map_get_def map_set_def
      intro!: inv3_update_same split: option.splits)

lemma setShape_inv:
  "store_inv m \<Longrightarrow> map_get (shapes m) k = Some sd \<Longrightarrow> store_inv (setShape k sd geo m)"
  by (auto simp: setShape_def store_inv_inv3 map_get_def map_set_def intro!: inv3_update_same)

lemma store_inv_cong:
  "shapes m' = shapes m \<Longrightarrow> shapesContainer m' = shapesContainer m \<Longrightarrow> nextGid m' = nextGid m \<Longrightarrow>
   store_inv m' = store_inv m"
  by (simp add: store_inv_def)

lemma unhighlight_all_inv:
  "store_inv m \<Longrightarrow> store_inv (foldl (\<lambda>acc s. updateShapeVisuals s False acc) m ks)"
  by (induction ks arbitrary: m) (simp_all add: updateShapeVisuals_inv)

lemma handles_fields:
  "shapes (clearResizeHandles m) = shapes m" "shapesContainer (clearResizeHandles m) = shapesContainer m"
  "nextGid (clearResizeHandles m) = nextGid m"
  "shapes (createResizeHandles k m) = shapes m" "shapesContainer (createResizeHandles k m) = shapesContainer m"
  "nextGid (createResizeHandles k m) = nextGid m"
  "shapes (enableResize m) = shapes m" "shapesContainer (enableResize m) = shapesContainer m"
  "nextGid (enableResize m) = nextGid m"
  "shapes (notifySelection ids m) = shapes m" "shapesContainer (notifySelection ids m) = shapesContainer m"
  "nextGid (notifySelection ids m) = nextGid m"
  "shapes (updateResizeHandles k m) = shapes m" "shapesContainer (updateResizeHandles k m) = shapesContainer m"
  "nextGid (updateResizeHandles k m) = nextGid m"
  by (simp_all add: clearResizeHandles_def createResizeHandles_def enableResize_def notifySelection_def
      updateResizeHandles_def Let_def split: option.splits Geometry.splits)

lemma handles_inv:
  "store_inv (clearResizeHandles m) = store_inv m"
  "store_inv (createResizeHandles k m) = store_inv m"
  "store_inv (enableResize m) = store_inv m"
  "store_inv (notifySelection ids m) = store_inv m"
  "store_inv (updateResizeHandles k m) = store_inv m"
  by (rule store_inv_cong; simp add: handles_fields)+

lemma clearPrevious_inv: "store_inv m \<Longrightarrow> store_inv (clearPrevious m)"
proof -
  assume a: "store_inv m"
  have "store_inv ((foldl (\<lambda>acc s. updateShapeVisuals s False acc) m (selectedShapes m))\<lparr>selectedShapes := []\<rparr>)
        = store_inv (foldl (\<lambda>acc s. updateShapeVisuals s False acc) m (selectedShapes m))"
    by (rule store_inv_cong) simp_all
  then show ?thesis using unhighlight_all_inv[OF a] by (simp add: clearPrevious_def handles_inv)
qed

lemma addSelected_inv: "store_inv m \<Longrightarrow> store_inv (addSelected k m)"
proof -
  assume a: "store_inv m"
  have "store_inv (m\<lparr>selectedShapes := set_add k (selectedShapes m)\<rparr>) = store_inv m"
    by (rule store_inv_cong) simp_all
  with a have "store_inv (updateShapeVisuals k True (m\<lparr>selectedShapes := set_add k (selectedShapes m)\<rparr>))"
    by (simp add: updateShapeVisuals_inv)
  then show ?thesis by (simp add: addSelected_def Let_def handles_inv)
qed

lemma deselectShape_inv: "store_inv m \<Longrightarrow> store_inv (deselectShape k m)"
proof -
  assume a: "store_inv m"
  have "store_inv (m\<lparr>selectedShapes := set_delete k (selectedShapes m)\<rparr>) = store_inv m"
    by (rule store_inv_cong) simp_all
  with a have "store_inv (updateShapeVisuals k False (m\<lparr>selectedShapes := set_delete k (selectedShapes m)\<rparr>))"
    by (simp add: updateShapeVisuals_inv)
  then show ?thesis using a by (simp add: deselectShape_def Let_def handles_inv)
qed

lemma clearSelection_inv: "store_inv m \<Longrightarrow> store_inv (clearSelection m)"
proof -
  assume a: "store_inv m"
  have "store_inv ((foldl (\<lambda>acc s. updateShapeVisuals s False acc) m (selectedShapes m))\<lparr>selectedShapes := []\<rparr>)
        = store_inv (foldl (\<lambda>acc s. updateShapeVisuals s False acc) m (selectedShapes m))"
    by (rule store_inv_cong) simp_all
  then show ?thesis using unhighlight_all_inv[OF a] by (simp add: clearSelection_def handles_inv)
qed

lemma addShape_inv: "store_inv m \<Longrightarrow> store_inv (fst (addShape sh m))"
  by (auto simp: addShape_def Let_def store_inv_inv3 map_set_def intro!: inv3_update_fresh)

lemma removeShape_inv: "store_inv m \<Longrightarrow> store_inv (removeShape k m)"
proof -
  assume a: "store_inv m"
  define m1 where "m1 = (case map_get (shapes m) k of
                  Some shapeData \<Rightarrow>
                    m\<lparr>shapesContainer := removeChild (gid (graphics shapeData)) (shapesContainer m),
                      shapes := map_delete k (shapes m)\<rparr>
                | None \<Rightarrow> m)"
  have "store_inv m1"
    using a by (auto simp: m1_def store_inv_inv3 map_get_def map_delete_def removeChild_def
        intro!: inv3_delete split: option.splits)
  moreover have "store_inv (m1\<lparr>labels := map_delete k (labels m1)\<rparr>) = store_inv m1"
    by (rule store_inv_cong) simp_all
  ultimately show ?thesis
    unfolding removeShape_def m1_def[symmetric] by (simp add: Let_def split: option.splits)
qed

lemma dragPointerDown_inv: "store_inv m \<Longrightarrow> store_inv (after (dragPointerDown k g pos m))"
  by (auto simp: dragPointerDown_def after_def Let_def store_inv_def
      split: option.splits Geometry.splits list.splits)

lemma handlePointerMove_inv: "store_inv m \<Longrightarrow> store_inv (after (handlePointerMove pos m))"
  by (auto simp: handlePointerMove_def after_def Let_def handles_inv updateShapeVisuals_inv setShape_inv
      split: option.splits Geometry.splits list.splits)

lemma run_inv: "store_inv m \<Longrightarrow> store_inv (run op m)"
proof (cases op)
  case (OpAddShape x1)
  then show "store_inv m \<Longrightarrow> ?thesis" by (simp add: addShape_inv)
next
  case OpBuildSpatialIndex
  then show "store_inv m \<Longrightarrow> ?thesis" by (simp add: buildSpatialIndex_def store_inv_def)
next
  case (OpRemoveShape x3)
  then show "store_inv m \<Longrightarrow> ?thesis" by (simp add: removeShape_inv)
next
  case OpClear
  then show "store_inv m \<Longrightarrow> ?thesis" by (simp add: clear_def store_inv_def)
next
  case (OpSelectShape x51 x52)
  then show "store_inv m \<Longrightarrow> ?thesis" by (simp add: selectShape_def addSelected_inv clearPrevious_inv)
next
  case (OpDeselectShape x6)
  then show "store_inv m \<Longrightarrow> ?thesis" by (simp add: deselectShape_inv)
next
  case OpClearSelection
  then show "store_inv m \<Longrightarrow> ?thesis" by (simp add: clearSelection_inv)
next
  case OpOnSelectionChanged
  then show "store_inv m \<Longrightarrow> ?thesis" by (simp add: onSelectionChanged_def store_inv_def)
next
  case (OpDragPointerDown x91 x92 x93)
  then show "store_inv m \<Longrightarrow> ?thesis" by (simp add: dragPointerDown_inv)
next
  case (OpResizePointerDown x10)
  then show "store_inv m \<Longrightarrow> ?thesis" by (simp add: resizePointerDown_def store_inv_def)
next
  case (OpPointerMove x11)
  then show "store_inv m \<Longrightarrow> ?thesis" by (simp add: handlePointerMove_inv)
next
  case OpPointerUp
  then show "store_inv m \<Longrightarrow> ?thesis" by (simp add: handlePointerUp_def store_inv_def)
next
  case (OpCreateNewPolygon x131 x132 x133 x134)
  then show "store_inv m \<Longrightarrow> ?thesis" by (simp add: createNewPolygon_def Let_def addShape_inv)
next
  case (OpCreateNewLine x141 x142 x143 x144)
  then show "store_inv m \<Longrightarrow> ?thesis" by (simp add: createNewLine_def Let_def addShape_inv)
next
  case (OpCreateNewPoint x151 x152 x153 x154)
  then show "store_inv m \<Longrightarrow> ?thesis" by (simp add: createNewPoint_def Let_def addShape_inv)
next
  case (OpCullShapes x16)
  then show "store_inv m \<Longrightarrow> ?thesis" by (simp add: cullShapes_inv)
qed


lemma sub_bind_refl: "sub_bind ss ss"
  by (auto simp: sub_bind_def)

lemma sub_bind_trans: "sub_bind a b \<Longrightarrow> sub_bind b c \<Longrightarrow> sub_bind a c"
  unfolding sub_bind_def by (metis)

lemma sub_bind_no_toggle:
  "sub_bind (shapes m) (shapes m') \<Longrightarrow> set (shapesContainer m') \<subseteq> set (shapesContainer m) \<Longrightarrow>
   no_toggle m m'"
  by (auto simp: sub_bind_def no_toggle_def)

lemma updateShapeVisuals_sub: "sub_bind (shapes m) (shapes (updateShapeVisuals k sel m))"
proof (cases "map_get (shapes m) k")
  case None
  then show ?thesis by (simp add: updateShapeVisuals_def sub_bind_refl)
next
  case (Some sd)
  then have "map_of (shapes m) k = Some sd" by (simp add: map_get_def)
  from update_same_binding(2)[OF this, of "sd\<lparr>graphics := (graphics sd)\<lparr>visual := redraw (shape sd) sel\<rparr>\<rparr>"]
  show ?thesis using Some by (simp add: updateShapeVisuals_def sub_bind_def map_set_def)
qed

lemma updateShapeVisuals_fields:
  "shapesContainer (updateShapeVisuals k sel m) = shapesContainer m"
  "nextGid (updateShapeVisuals k sel m) = nextGid m"
  by (simp_all add: updateShapeVisuals_def split: option.splits)

lemma setShape_sub:
  "map_get (shapes m) k = Some sd \<Longrightarrow> sub_bind (shapes m) (shapes (setShape k sd geo m))"
proof -
  assume "map_get (shapes m) k = Some sd"
  then have "map_of (shapes m) k = Some sd" by (simp add: map_get_def)
  from update_same_binding(2)[OF this, of "sd\<lparr>shape := (shape sd)\<lparr>geometry := geo\<rparr>\<rparr>"]
  show ?thesis by (simp add: setShape_def sub_bind_def map_set_def)
qed

lemma unhighlight_all_sub:
  "sub_bind (shapes m) (shapes (foldl (\<lambda>acc s. updateShapeVisuals s False acc) m ks))"
proof (induction ks arbitrary: m)
  case Nil
  then show ?case by (simp add: sub_bind_refl)
next
  case (Cons a ks)
  show ?case using sub_bind_trans[OF updateShapeVisuals_sub Cons.IH] by simp
qed

lemma unhighlight_all_fields:
  "shapesContainer (foldl (\<lambda>acc s. updateShapeVisuals s False acc) m ks) = shapesContainer m"
  by (induction ks arbitrary: m) (simp_all add: updateShapeVisuals_fields)

lemma clearPrevious_sub:
  "sub_bind (shapes m) (shapes (clearPrevious m))" "shapesContainer (clearPrevious m) = shapesContainer m"
  by (simp_all add: clearPrevious_def clearResizeHandles_def unhighlight_all_sub unhighlight_all_fields)

lemma updateShapeVisuals_sub_cong:
  "shapes m1 = shapes m \<Longrightarrow> sub_bind (shapes m) (shapes (updateShapeVisuals k sel m1))"
  using updateShapeVisuals_sub[of m1 k sel] by simp

lemma addSelected_sub:
  "sub_bind (shapes m) (shapes (addSelected k m))" "shapesContainer (addSelected k m) = shapesContainer m"
  by (simp_all add: addSelected_def Let_def handles_fields updateShapeVisuals_sub_cong
      updateShapeVisuals_fields)

lemma selectShape_sub:
  "sub_bind (shapes m) (shapes (selectShape k multi m))"
  "shapesContainer (selectShape k multi m) = shapesContainer m"
  using sub_bind_trans[OF clearPrevious_sub(1) addSelected_sub(1)]
  by (simp_all add: selectShape_def addSelected_sub clearPrevious_sub)

lemma deselectShape_sub:
  "sub_bind (shapes m) (shapes (deselectShape k m))"
  "shapesContainer (deselectShape k m) = shapesContainer m"
  by (simp_all add: deselectShape_def Let_def handles_fields updateShapeVisuals_sub_cong
      updateShapeVisuals_fields sub_bind_refl)

lemma clearSelection_sub:
  "sub_bind (shapes m) (shapes (clearSelection m))"
  "shapesContainer (clearSelection m) = shapesContainer m"
  by (simp_all add: clearSelection_def handles_fields clearResizeHandles_def notifySelection_def
      unhighlight_all_sub unhighlight_all_fields)

lemma removeShape_sub:
  "sub_bind (shapes m) (shapes (removeShape k m))"
  "set (shapesContainer (removeShape k m)) \<subseteq> set (shapesContainer m)"
proof -
  show "sub_bind (shapes m) (shapes (removeShape k m))"
    by (auto simp: removeShape_def Let_def sub_bind_def map_delete_def AList.delete_eq
        split: option.splits)
  have "set (remove1 g (shapesContainer m)) \<subseteq> set (shapesContainer m)" for g
    by (rule set_remove1_subset)
  then show "set (shapesContainer (removeShape k m)) \<subseteq> set (shapesContainer m)"
    by (auto simp: removeShape_def Let_def removeChild_def split: option.splits)
qed

lemma handlePointerMove_sub:
  "sub_bind (shapes m) (shapes (after (handlePointerMove pos m)))"
  "shapesContainer (after (handlePointerMove pos m)) = shapesContainer m"
proof -
  have step: "sub_bind (shapes m) (shapes (updateResizeHandles k (updateShapeVisuals k True (setShape k sd geo m))))"
    if "map_get (shapes m) k = Some sd" for k sd geo
    using sub_bind_trans[OF setShape_sub[OF that] updateShapeVisuals_sub]
    by (simp add: handles_fields)
  have step0: "sub_bind (shapes m) (shapes (updateResizeHandles k (updateShapeVisuals k True m)))" for k
    by (simp add: handles_fields updateShapeVisuals_sub)
  show "sub_bind (shapes m) (shapes (after (handlePointerMove pos m)))"
    by (auto simp: handlePointerMove_def after_def Let_def step step0 sub_bind_refl
        split: option.splits Geometry.splits list.splits)
  show "shapesContainer (after (handlePointerMove pos m)) = shapesContainer m"
    by (auto simp: handlePointerMove_def after_def Let_def handles_fields updateShapeVisuals_fields
        setShape_def split: option.splits Geometry.splits list.splits)
qed

lemma dragPointerDown_sub:
  "shapes (after (dragPointerDown k g pos m)) = shapes m"
  "shapesContainer (after (dragPointerDown k g pos m)) = shapesContainer m"
  by (auto simp: dragPointerDown_def after_def Let_def split: option.splits Geometry.splits list.splits)

lemma addShape_no_toggle:
  assumes "store_inv m"
  shows "no_toggle m (fst (addShape sh m))"
proof -
  let ?sd = "\<lparr>graphics = \<lparr>gid = nextGid m,
               visual = (case geometry sh of
                           Polygon cs \<Rightarrow> createPolygon cs
                         | Line ps \<Rightarrow> createLine ps
                         | Point c r \<Rightarrow> createPoint)\<rparr>, shape = sh, inScene = False\<rparr>"
  have a: "set (AList.update (shape_id sh) ?sd (shapes m)) \<subseteq> insert (shape_id sh, ?sd) (set (shapes m))"
    by (rule set_update_subset)
  have fresh: "nextGid m \<notin> entry_gid ` set (shapes m)" "nextGid m \<notin> set (shapesContainer m)"
    using assms by (auto simp: store_inv_def)
  have "\<forall>e \<in> set (AList.update (shape_id sh) ?sd (shapes m)).
          (\<exists>e0 \<in> set (shapes m). entry_gid e = entry_gid e0 \<and> inScene (snd e) = inScene (snd e0)) \<or>
          (entry_gid e \<notin> entry_gid ` set (shapes m) \<and> \<not> inScene (snd e) \<and>
           entry_gid e \<notin> set (shapesContainer m))"
  proof
    fix e assume "e \<in> set (AList.update (shape_id sh) ?sd (shapes m))"
    with a have "e = (shape_id sh, ?sd) \<or> e \<in> set (shapes m)" by auto
    then show "(\<exists>e0 \<in> set (shapes m). entry_gid e = entry_gid e0 \<and> inScene (snd e) = inScene (snd e0)) \<or>
          (entry_gid e \<notin> entry_gid ` set (shapes m) \<and> \<not> inScene (snd e) \<and>
           entry_gid e \<notin> set (shapesContainer m))"
    proof
      assume e: "e = (shape_id sh, ?sd)"
      then have "entry_gid e = nextGid m" "\<not> inScene (snd e)" by (simp_all add: entry_gid_def)
      with fresh show ?thesis by simp
    next
      assume "e \<in> set (shapes m)"
      then show ?thesis by blast
    qed
  qed
  then show ?thesis by (simp add: no_toggle_def addShape_def Let_def map_set_def)
qed

lemma addShape_entry:
  assumes "store_inv m"
  shows "\<exists>sd. map_get (shapes (fst (addShape sh m))) (shape_id sh) = Some sd \<and> shape sd = sh \<and>
           \<not> inScene sd \<and> gid (graphics sd) \<notin> set (shapesContainer (fst (addShape sh m)))"
  using assms by (auto simp: addShape_def Let_def map_get_set store_inv_def)

lemma run_no_toggle:
  assumes "store_inv m" and "\<not> is_cull op"
  shows "no_toggle m (run op m)"
proof (cases op)
  case (OpAddShape x1)
  then show ?thesis using assms by (simp add: addShape_no_toggle)
next
  case OpBuildSpatialIndex
  then show ?thesis by (simp add: buildSpatialIndex_def sub_bind_no_toggle sub_bind_refl)
next
  case (OpRemoveShape x3)
  then show ?thesis by (simp add: sub_bind_no_toggle removeShape_sub)
next
  case OpClear
  then show ?thesis by (simp add: clear_def no_toggle_def)
next
  case (OpSelectShape x51 x52)
  then show ?thesis by (simp add: sub_bind_no_toggle selectShape_sub)
next
  case (OpDeselectShape x6)
  then show ?thesis by (simp add: sub_bind_no_toggle deselectShape_sub)
next
  case OpClearSelection
  then show ?thesis by (simp add: sub_bind_no_toggle clearSelection_sub)
next
  case OpOnSelectionChanged
  then show ?thesis by (simp add: onSelectionChanged_def sub_bind_no_toggle sub_bind_refl)
next
  case (OpDragPointerDown x91 x92 x93)
  then show ?thesis by (simp add: sub_bind_no_toggle dragPointerDown_sub sub_bind_refl)
next
  case (OpResizePointerDown x10)
  then show ?thesis by (simp add: resizePointerDown_def sub_bind_no_toggle sub_bind_refl)
next
  case (OpPointerMove x11)
  then show ?thesis by (simp add: sub_bind_no_toggle handlePointerMove_sub)
next
  case OpPointerUp
  then show ?thesis by (simp add: handlePointerUp_def sub_bind_no_toggle sub_bind_refl)
next
  case (OpCreateNewPolygon x131 x132 x133 x134)
  then show ?thesis using assms by (simp add: createNewPolygon_def Let_def addShape_no_toggle)
next
  case (OpCreateNewLine x141 x142 x143 x144)
  then show ?thesis using assms by (simp add: createNewLine_def Let_def addShape_no_toggle)
next
  case (OpCreateNewPoint x151 x152 x153 x154)
  then show ?thesis using assms by (simp add: createNewPoint_def Let_def addShape_no_toggle)
next
  case (OpCullShapes x16)
  then show ?thesis using assms by simp
qed

text \<open>
  C10. The manager that the constructor makes satisfies the invariant that an entry
  of the store has \<open>inScene\<close> true iff its graphics object is a child of the shapes
  container, and every operation of the manager keeps it.
  Every operation other than \<open>cullShapes\<close> toggles no flag and attaches nothing.
  \<open>addShape\<close> makes the entry of the shape's id with \<open>inScene\<close> false and a graphics
  object that is not a child of the container. (\<open>cullShapes\<close> changes flags, and keeps
  the invariant: each change comes with the attach or detach that matches it.)
\<close>

theorem scene_invariant:
  assumes "store_inv m"
  shows "store_inv (newShapeManager tr w) \<and>
         store_inv (run op m) \<and> (\<not> is_cull op \<longrightarrow> no_toggle m (run op m)) \<and>
         (\<exists>sd. map_get (shapes (fst (addShape sh m))) (shape_id sh) = Some sd \<and> shape sd = sh \<and>
            \<not> inScene sd \<and> gid (graphics sd) \<notin> set (shapesContainer (fst (addShape sh m))))"
proof -
  have "store_inv (newShapeManager tr w)"
    by (simp add: store_inv_def newShapeManager_def)
  then show ?thesis using assms run_inv run_no_toggle addShape_entry by blast
qed

theorem scene_invariant_witness:
  "store_inv attached_a \<and> shapesContainer attached_a = [0] \<and>
   store_inv (run (OpRemoveShape ''a'') attached_a) \<and>
   no_toggle attached_a (run (OpRemoveShape ''a'') attached_a)"
proof -
  have h: "store_inv attached_a"
    by (simp add: store_inv_def attached_a_eval selected_a_eval store_a_eval attached_iff_def
        entry_gid_def)
  have c: "shapesContainer attached_a = [0]" by (simp add: attached_a_eval)
  from scene_invariant[OF h, where op = "OpRemoveShape ''a''" and sh = poly_a] h c
  show ?thesis by simp
qed

section \<open>Properties of the importer\<close>

lemma length_filterNotNull: "length (filterNotNull xs) \<le> length xs"
proof (induction xs)
  case Nil
  then show ?case by simp
next
  case (Cons a xs)
  then show ?case by (cases a) simp_all
qed

lemma length_usable: "length (usable rows) \<le> length rows"
  using length_filterNotNull[of "map coordsArrayToCoordinate rows"] by (simp add: usable_def)

text \<open>What the importer with guards makes of one node.\<close>

lemma parseLateral_skip:
  assumes "Layout lateral = Some layout" and "length (usable layout) < 2"
  shows "parseLateral blockId st (Some lateral) = []"
  using assms by (simp add: parseLateral_def Let_def)

lemma parseBlock_skip:
  assumes "Block.Coordinates block = Some rows" and "length (usable rows) < 3"
  shows "fst (parseBlock rt (Some block)) = [] \<and>
         (snd (parseBlock rt (Some block)) = [SkippingInvalidBlock (Some (Block.Id block))] \<or>
          snd (parseBlock rt (Some block)) = [BlockInsufficient (Block.Id block)])"
  using assms by (simp add: parseBlock_def Let_def)

lemma parseSubArea_skip:
  assumes "SubArea.Coordinates subArea = Some rows" and "length (usable rows) < 3"
  shows "fst (parseSubArea rt (Some subArea)) = [] \<and>
         (snd (parseSubArea rt (Some subArea)) = [SkippingInvalidSubarea (Some (SubArea.Id subArea))] \<or>
          snd (parseSubArea rt (Some subArea)) = [SubareaInsufficient (SubArea.Id subArea)])"
  using assms by (simp add: parseSubArea_def Let_def)

lemma parseBlock_keep:
  assumes "Block.Coordinates block = Some rows" and "length (usable rows) \<ge> 3"
  shows "\<exists>rest. fst (parseBlock rt (Some block)) =
           \<lparr>shape_id = ''block-'' @ Block.Id block, geometry = Polygon (usable rows),
            style = blockStyle rt (ExternalSnapshot block),
            label = Some (''Block '' @ showInt (Block.Number block))\<rparr> # rest"
proof -
  have "\<not> length rows < 3" using assms(2) length_usable[of rows] by simp
  then show ?thesis using assms by (simp add: parseBlock_def Let_def split: option.splits)
qed

lemma parseSubArea_keep:
  assumes "SubArea.Coordinates subArea = Some rows" and "length (usable rows) \<ge> 3"
  shows "fst (parseSubArea rt (Some subArea)) =
           \<lparr>shape_id = ''subarea-'' @ SubArea.Id subArea, geometry = Polygon (usable rows),
            style = subAreaStyle,
            label = Some (''SubArea '' @ showInt (SubArea.Number subArea))\<rparr> #
           (case Blocks subArea of None \<Rightarrow> [] | Some blocks \<Rightarrow> concat (map (fst \<circ> parseBlock rt) blocks))"
proof -
  have "\<not> length rows < 3" using assms(2) length_usable[of rows] by simp
  then show ?thesis using assms by (simp add: parseSubArea_def Let_def split: option.splits)
qed

text \<open>
  In the importer with guards a block with fewer than 3 usable points gives no shape,
  and a well-formed block beside it, in a well-formed sub-area of the document, gives
  its polygon.
\<close>

lemma guarded_importer_skips:
  assumes "SubAreas project = Some subAreas" and "Some subArea \<in> set subAreas"
    and "SubArea.Coordinates subArea = Some arows" and "length (usable arows) \<ge> 3"
    and "Blocks subArea = Some blocks"
    and "Some bad \<in> set blocks" and "Block.Coordinates bad = Some brows" and "length (usable brows) < 3"
    and "Some good \<in> set blocks" and "Block.Coordinates good = Some grows" and "length (usable grows) \<ge> 3"
  shows "fst (parseBlock rt (Some bad)) = [] \<and>
         \<lparr>shape_id = ''block-'' @ Block.Id good, geometry = Polygon (usable grows),
          style = blockStyle rt (ExternalSnapshot good),
          label = Some (''Block '' @ showInt (Block.Number good))\<rparr>
           \<in> set (fst (parseIrrigationProject rt (Some project)))"
proof -
  let ?g = "\<lparr>shape_id = ''block-'' @ Block.Id good, geometry = Polygon (usable grows),
          style = blockStyle rt (ExternalSnapshot good),
          label = Some (''Block '' @ showInt (Block.Number good))\<rparr>"
  from parseBlock_keep[OF assms(10,11), of rt] have "?g \<in> set (fst (parseBlock rt (Some good)))"
    by auto
  with assms(9) have "?g \<in> set (concat (map (fst \<circ> parseBlock rt) blocks))"
    by auto
  with parseSubArea_keep[OF assms(3,4), of rt] assms(5)
  have "?g \<in> set (fst (parseSubArea rt (Some subArea)))" by simp
  with assms(2) have "?g \<in> set (concat (map (fst \<circ> parseSubArea rt) subAreas))"
    by auto
  then have "?g \<in> set (fst (parseIrrigationProject rt (Some project)))"
    using assms(1) by (simp add: parseIrrigationProject_def)
  then show ?thesis using parseBlock_skip[OF assms(7,8)] by simp
qed

text \<open>
  C4 on the importer without guards. For the document with the sub-area \<open>A\<close> and the
  blocks \<open>B1\<close> (empty coordinate list) and \<open>B2\<close>, \<open>parseIrrigationProject\<close> of
  \<open>jsonParser.ts\<close> returns a polygon \<open>block-B1\<close> without vertices between the shapes
  of \<open>A\<close> and of \<open>B2\<close>, where C4 says that the block gives no shape. The importer with
  guards returns the shapes of \<open>A\<close> and \<open>B2\<close> only, and one warning for \<open>B1\<close>.
\<close>

theorem unguarded_importer_keeps_empty_block:
  "map_sum id (map (\<lambda>s. (shape_id s, geometry s))) (parseIrrigationProject_unguarded rt (Some project_AB)) =
     Inr [(''subarea-A'', Polygon [(Some (Num 0), Some (Num 0)), (Some (Num 10), Some (Num 0)),
                                   (Some (Num 10), Some (Num (-10)))]),
          (''block-B1'', Polygon []),
          (''block-B2'', Polygon [(Some (Num 0), Some (Num 0)), (Some (Num 10), Some (Num 0)),
                                  (Some (Num 10), Some (Num (-10)))])] \<and>
   map shape_id (fst (parseIrrigationProject rt (Some project_AB))) = [''subarea-A'', ''block-B2''] \<and>
   snd (parseIrrigationProject rt (Some project_AB)) = [SkippingInvalidBlock (Some ''B1'')]"
  by (simp add: parseIrrigationProject_unguarded_def parseSubArea_unguarded_def
      parseBlock_unguarded_def coordsArrayToCoordinate_unguarded_def project_AB_def subArea_A_def
      block_B1_def block_B2_def triangle_def parseIrrigationProject_def parseSubArea_def
      parseBlock_def usable_def Let_def)

section \<open>Properties of the generator\<close>

lemma showNat_0: "showNat 0 = ''0''" and showNat_1: "showNat (Suc 0) = ''1''"
  by (simp_all add: showNat.simps digit_char_def)

text \<open>A sub-area that reaches the target: the block loops do not run.\<close>

lemma subAreaBody_last:
  assumes "budget G > 0" and "real (shapeCount st) + 1 \<ge> target G"
  shows "subAreaBody G row col st =
     Some (Inr (st\<lparr>gen_shapes := gen_shapes st @
                       [\<lparr>shape_id = ''subarea-'' @ showNat (subAreaIndex st),
                         geometry = Polygon (rectangle (originX G + real row * subAreaSize)
                                               (originY G + real col * subAreaSize)
                                               (subAreaSize + (random G (randomCalls st) - 0.5) * 200)
                                               (subAreaSize + (random G (randomCalls st + 1) - 0.5) * 200)),
                         style = \<lparr>fillColor = Some ''#FFFFFF'', borderColor = Some ''#00CC00'',
                                  borderWidth = Some (Num 2), opacity = Some (Num 0.3)\<rparr>,
                         label = Some (''SubArea '' @ showNat (subAreaIndex st + 1))\<rparr>],
                   shapeCount := shapeCount st + 1,
                   randomCalls := randomCalls st + 2,
                   subAreaIndex := subAreaIndex st + 1\<rparr>))"
proof -
  obtain k where k: "budget G = Suc k" using assms(1) by (cases "budget G") auto
  have nb: "bRowLoop (budget G) G A 0 st' = Some (Inr st')"
    if "real (shapeCount st') \<ge> target G" for A st'
    using that by (simp add: k)
  show ?thesis
    unfolding subAreaBody_def Let_def
    using assms(2)
    by (cases "js_floor (js_div (Num (subAreaSize + (random G (randomCalls st) - 0.5) * 200))
                          (js_sqrt (blocksPerSubArea G)))")
       (simp_all add: nb)
qed

lemma generate_one:
  assumes "targetShapeCount config = 1" and "areaWidth config > 0" and "areaHeight config > 0"
    and "fuel > 0"
  shows "generateStressTestShapes fuel rnd config =
     Some (Inr [\<lparr>shape_id = ''subarea-0'',
                 geometry = Polygon (rectangle (case baseX config of Some v \<Rightarrow> v | None \<Rightarrow> 611000)
                                       (case baseY config of Some v \<Rightarrow> v | None \<Rightarrow> 4205000)
                                       (subAreaSize + (rnd 0 - 0.5) * 200)
                                       (subAreaSize + (rnd 1 - 0.5) * 200)),
                 style = \<lparr>fillColor = Some ''#FFFFFF'', borderColor = Some ''#00CC00'',
                          borderWidth = Some (Num 2), opacity = Some (Num 0.3)\<rparr>,
                 label = Some ''SubArea 1''\<rparr>])"
proof -
  obtain f where f: "fuel = Suc f" using assms(4) by (cases fuel) auto
  have r: "0 < \<lceil>areaWidth config / subAreaSize\<rceil>" "0 < \<lceil>areaHeight config / subAreaSize\<rceil>"
    using assms(2,3) by (simp_all add: subAreaSize_def)
  show ?thesis
    unfolding generateStressTestShapes_def Let_def f
    using r assms(1)
    by (simp add: subAreaBody_last showNat_0 showNat_1)
qed


lemma extendBounds_fields:
  "minX (extendBounds b c) = (if js_lt (Num (fst c)) (minX b) then Num (fst c) else minX b)"
  "maxX (extendBounds b c) = (if js_lt (maxX b) (Num (fst c)) then Num (fst c) else maxX b)"
  "minY (extendBounds b c) = (if js_lt (Num (snd c)) (minY b) then Num (snd c) else minY b)"
  "maxY (extendBounds b c) = (if js_lt (maxY b) (Num (snd c)) then Num (snd c) else maxY b)"
  by (simp_all add: extendBounds_def Let_def)

lemma lower_step:
  "m \<noteq> NaN \<Longrightarrow> js_le (if js_lt (Num a) m then Num a else m) (Num a)"
  "js_le m (Num d) \<Longrightarrow> js_le (if js_lt (Num a) m then Num a else m) (Num d)"
  "m \<noteq> NaN \<Longrightarrow> (if js_lt (Num a) m then Num a else m) \<noteq> NaN"
  by (cases m; simp)+

lemma upper_step:
  "m \<noteq> NaN \<Longrightarrow> js_le (Num a) (if js_lt m (Num a) then Num a else m)"
  "js_le (Num d) m \<Longrightarrow> js_le (Num d) (if js_lt m (Num a) then Num a else m)"
  "m \<noteq> NaN \<Longrightarrow> (if js_lt m (Num a) then Num a else m) \<noteq> NaN"
  by (cases m; simp)+

lemma extendBounds_boxed:
  "no_nan b \<Longrightarrow> boxed (extendBounds b c) c"
  "boxed b d \<Longrightarrow> boxed (extendBounds b c) d"
  "no_nan b \<Longrightarrow> no_nan (extendBounds b c)"
  by (simp_all add: boxed_def no_nan_def extendBounds_fields lower_step upper_step del: if_split)

lemma foldl_extendBounds_keeps:
  "boxed b d \<Longrightarrow> boxed (foldl extendBounds b cs) d"
  by (induction cs arbitrary: b) (simp_all add: extendBounds_boxed)

lemma foldl_extendBounds_boxed:
  "no_nan b \<Longrightarrow> c \<in> set cs \<Longrightarrow> boxed (foldl extendBounds b cs) c"
proof (induction cs arbitrary: b)
  case Nil
  then show ?case by simp
next
  case (Cons a cs)
  show ?case
  proof (cases "c = a")
    case True
    then show ?thesis using Cons.prems(1) by (simp add: foldl_extendBounds_keeps extendBounds_boxed)
  next
    case False
    then have "c \<in> set cs" using Cons.prems(2) by simp
    then show ?thesis using Cons.IH[OF extendBounds_boxed(3)[OF Cons.prems(1)]] by simp
  qed
qed

lemma js_le_up: "js_le a (Num p) \<Longrightarrow> p \<le> q \<Longrightarrow> js_le a (Num q)"
  by (cases a) simp_all

lemma js_le_down: "js_le (Num p) a \<Longrightarrow> q \<le> p \<Longrightarrow> js_le (Num q) a"
  by (cases a) simp_all

text \<open>A box that holds a point inside the viewport meets the buffered viewport.\<close>

lemma boxed_inside_intersects:
  assumes "boxed (BBox.truncate it) c" and "inside v c"
  shows "intersects (bufferedBounds v) it"
proof -
  from assms(2) have w: "0 \<le> vp_width v" "0 \<le> vp_height v" by (auto simp: inside_def)
  have b: "0 \<le> vp_width v * BUFFER_PERCENT" "0 \<le> vp_height v * BUFFER_PERCENT"
    using w by (simp_all add: BUFFER_PERCENT_def)
  from assms(1) have bx: "js_le (minX it) (Num (fst c))" "js_le (Num (fst c)) (maxX it)"
    "js_le (minY it) (Num (snd c))" "js_le (Num (snd c)) (maxY it)"
    by (simp_all add: boxed_def BBox.truncate_def)
  have i: "vp_x v \<le> fst c" "fst c \<le> vp_x v + vp_width v" "vp_y v \<le> snd c"
    "snd c \<le> vp_y v + vp_height v"
    using assms(2) by (simp_all add: inside_def)
  have "fst c \<le> vp_x v + vp_width v + vp_width v * BUFFER_PERCENT" using i(2) b(1) by linarith
  from js_le_up[OF bx(1) this]
  have 1: "js_le (minX it) (Num (vp_x v + vp_width v + vp_width v * BUFFER_PERCENT))" .
  have "snd c \<le> vp_y v + vp_height v + vp_height v * BUFFER_PERCENT" using i(4) b(2) by linarith
  from js_le_up[OF bx(3) this]
  have 2: "js_le (minY it) (Num (vp_y v + vp_height v + vp_height v * BUFFER_PERCENT))" .
  have "vp_x v - vp_width v * BUFFER_PERCENT \<le> fst c" using i(1) b(1) by linarith
  from js_le_down[OF bx(2) this]
  have 3: "js_le (Num (vp_x v - vp_width v * BUFFER_PERCENT)) (maxX it)" .
  have "vp_y v - vp_height v * BUFFER_PERCENT \<le> snd c" using i(3) b(2) by linarith
  from js_le_down[OF bx(4) this]
  have 4: "js_le (Num (vp_y v - vp_height v * BUFFER_PERCENT)) (maxY it)" .
  from 1 2 3 4 show ?thesis by (simp add: intersects_def bufferedBounds_def Let_def)
qed

text \<open>One polygon with a vertex, loaded and culled with a viewport that covers it.\<close>

lemma cull_single_polygon:
  assumes "geometry sh = Polygon (c # cs)" and "covers v [sh]"
  shows "detail_count (snd (cullShapes v (loadShapes [sh] (newShapeManager tr True)))) = 1 \<and>
         detail_total (snd (cullShapes v (loadShapes [sh] (newShapeManager tr True)))) = 1 \<and>
         dispatched (fst (cullShapes v (loadShapes [sh] (newShapeManager tr True)))) =
           [snd (cullShapes v (loadShapes [sh] (newShapeManager tr True)))]"
proof -
  define m where "m = loadShapes [sh] (newShapeManager tr True)"
  define sd where "sd = \<lparr>graphics = \<lparr>gid = 0, visual = createPolygon (c # cs)\<rparr>, shape = sh, inScene = False\<rparr>"
  have ins: "inside v c" using assms by (simp add: covers_def)
  have "boxed (foldl extendBounds emptyBounds (c # cs)) c"
    by (rule foldl_extendBounds_boxed) (simp_all add: no_nan_def emptyBounds_def)
  then have "boxed (BBox.truncate (indexItem sd)) c"
    using assms(1) by (simp add: indexItem_def sd_def BBox.truncate_def BBox.extend_def boxed_def)
  from boxed_inside_intersects[OF this ins] have hit: "intersects (bufferedBounds v) (indexItem sd)" .
  have sh: "shapes m = [(shape_id sh, sd)]" and ix: "spatialIndex m = Some [indexItem sd]"
    and cont: "shapesContainer m = []" and win: "windowDefined m" and dis: "dispatched m = []"
    using assms(1)
    by (simp_all add: m_def loadShapes_def addShape_def Let_def newShapeManager_def map_set_def
        buildSpatialIndex_def sd_def)
  have e: "ensureIndex m = m" using ix by (simp add: ensureIndex_def)
  have ids: "potentiallyVisibleIds v m = [shape_id sh]"
    using ix hit by (simp add: potentiallyVisibleIds_def rbush_search_def indexItem_def sd_def BBox.extend_def)
  have nl: "\<not> is_line (geometry (shape sd))" using assms(1) by (simp add: sd_def)
  have ns: "\<not> inScene sd" by (simp add: sd_def)
  show ?thesis
    unfolding m_def[symmetric] cullShapes_def e cullPass_def ids
    using nl ns win dis by (simp add: sh cont Let_def cullStep_def)
qed

text \<open>
  C7. With \<open>targetShapeCount\<close> 1 and a positive area width and height, whatever
  \<open>Math.random\<close> returns and with any fuel above 0, the generator returns a list of
  exactly one shape: the polygon \<open>subarea-0\<close>, labelled \<open>SubArea 1\<close>, the rectangle of
  the first sub-area with sides of 1500 units plus or minus the random variation. When
  that list is loaded into a new manager and culled with a viewport that holds every
  vertex, the pass counts 1 visible shape of 1 in total, and that is the one event it
  dispatches.
\<close>

theorem single_shape_scenario:
  assumes "targetShapeCount config = 1" and "areaWidth config > 0" and "areaHeight config > 0"
    and "fuel > 0"
  shows "\<exists>sh. generateStressTestShapes fuel rnd config = Some (Inr [sh]) \<and>
           shape_id sh = ''subarea-0'' \<and> label sh = Some ''SubArea 1'' \<and>
           geometry sh = Polygon (rectangle (case baseX config of Some v \<Rightarrow> v | None \<Rightarrow> 611000)
                                    (case baseY config of Some v \<Rightarrow> v | None \<Rightarrow> 4205000)
                                    (subAreaSize + (rnd 0 - 0.5) * 200)
                                    (subAreaSize + (rnd 1 - 0.5) * 200)) \<and>
           (\<forall>v. covers v [sh] \<longrightarrow>
              detail_count (snd (cullShapes v (loadShapes [sh] (newShapeManager tr True)))) = 1 \<and>
              detail_total (snd (cullShapes v (loadShapes [sh] (newShapeManager tr True)))) = 1 \<and>
              dispatched (fst (cullShapes v (loadShapes [sh] (newShapeManager tr True)))) =
                [snd (cullShapes v (loadShapes [sh] (newShapeManager tr True)))])"
proof -
  let ?sh = "\<lparr>shape_id = ''subarea-0'',
                 geometry = Polygon (rectangle (case baseX config of Some v \<Rightarrow> v | None \<Rightarrow> 611000)
                                       (case baseY config of Some v \<Rightarrow> v | None \<Rightarrow> 4205000)
                                       (subAreaSize + (rnd 0 - 0.5) * 200)
                                       (subAreaSize + (rnd 1 - 0.5) * 200)),
                 style = \<lparr>fillColor = Some ''#FFFFFF'', borderColor = Some ''#00CC00'',
                          borderWidth = Some (Num 2), opacity = Some (Num 0.3)\<rparr>,
                 label = Some ''SubArea 1''\<rparr> :: CShape"
  have g: "generateStressTestShapes fuel rnd config = Some (Inr [?sh])"
    by (rule generate_one[OF assms])
  have "\<exists>c cs. geometry ?sh = Polygon (c # cs)" by (simp add: rectangle_def)
  then obtain c cs where p: "geometry ?sh = Polygon (c # cs)" by blast
  have "\<forall>v. covers v [?sh] \<longrightarrow>
              detail_count (snd (cullShapes v (loadShapes [?sh] (newShapeManager tr True)))) = 1 \<and>
              detail_total (snd (cullShapes v (loadShapes [?sh] (newShapeManager tr True)))) = 1 \<and>
              dispatched (fst (cullShapes v (loadShapes [?sh] (newShapeManager tr True)))) =
                [snd (cullShapes v (loadShapes [?sh] (newShapeManager tr True)))]"
    using cull_single_polygon[OF p] by blast
  with g show ?thesis by (intro exI[of _ ?sh]) simp
qed

theorem single_shape_scenario_witness:
  "targetShapeCount config_one = 1 \<and> areaWidth config_one > 0 \<and> areaHeight config_one > 0 \<and>
   (\<exists>sh. generateStressTestShapes 1 rnd_half config_one = Some (Inr [sh]) \<and>
      covers view_world [sh] \<and>
      detail_count (snd (cullShapes view_world (loadShapes [sh] (newShapeManager id True)))) = 1 \<and>
      detail_total (snd (cullShapes view_world (loadShapes [sh] (newShapeManager id True)))) = 1)"
proof -
  have h: "targetShapeCount config_one = 1" "areaWidth config_one > 0" "areaHeight config_one > 0"
    "(1::nat) > 0"
    by (simp_all add: config_one_def)
  from single_shape_scenario[OF h, of rnd_half id]
  obtain sh where sh: "generateStressTestShapes 1 rnd_half config_one = Some (Inr [sh])"
    "geometry sh = Polygon (rectangle (case baseX config_one of Some v \<Rightarrow> v | None \<Rightarrow> 611000)
                                    (case baseY config_one of Some v \<Rightarrow> v | None \<Rightarrow> 4205000)
                                    (subAreaSize + (rnd_half 0 - 0.5) * 200)
                                    (subAreaSize + (rnd_half 1 - 0.5) * 200))"
    "\<forall>v. covers v [sh] \<longrightarrow>
              detail_count (snd (cullShapes v (loadShapes [sh] (newShapeManager id True)))) = 1 \<and>
              detail_total (snd (cullShapes v (loadShapes [sh] (newShapeManager id True)))) = 1 \<and>
              dispatched (fst (cullShapes v (loadShapes [sh] (newShapeManager id True)))) =
                [snd (cullShapes v (loadShapes [sh] (newShapeManager id True)))]"
    by blast
  have c: "covers view_world [sh]"
    using sh(2) by (simp add: covers_def inside_def view_world_def config_one_def rnd_half_def
        rectangle_def subAreaSize_def)
  with sh(3) have "detail_count (snd (cullShapes view_world (loadShapes [sh] (newShapeManager id True)))) = 1 \<and>
      detail_total (snd (cullShapes view_world (loadShapes [sh] (newShapeManager id True)))) = 1"
    by blast
  with sh(1) c h show ?thesis by blast
qed

end
